theory Spec2Isabelle
  imports Complex_Main "HOL-Library.List_Lexorder" "HOL-Library.Char_ord" "HOL-Library.Multiset"
begin

section \<open>Python values, exceptions and results\<close>

text \<open>
  The repository is Python 2.  An exception is a value of type \<open>error\<close>; a method that
  mutates its object returns the object after the call together with either the exception it
  raised or the value it returned, so that the state left behind by a raising call is part of
  the model.  Python floats are modelled by the real number they denote: every finite double is
  a real, comparison and negation of doubles are exact, and the rounding of the arithmetic
  operations, the infinities and NaN are outside the model.
\<close>

datatype error =
    KeyError | ValueError | TypeError | ZeroDivisionError | IOError
  | RuntimeError | EOFError | IndexError

datatype pyval =
    VNone | VInt int | VFloat real | VStr string | VList "pyval list"

section \<open>Star.py: the parameter store\<close>

text \<open>
  \<open>class Star(dict)\<close>: the dictionary part of a Star is a map from keys to values.
  \<open>has_key\<close>, \<open>dict_getitem\<close> (\<open>super(Star,self).__getitem__\<close>), \<open>setitem\<close> and
  \<open>delitem\<close> are the methods the class inherits from \<open>dict\<close> unchanged.
\<close>

type_synonym store = "string \<rightharpoonup> pyval"

type_synonym 'a result = "(error + 'a) \<times> store"

type_synonym getter = "string \<Rightarrow> store \<Rightarrow> pyval result"

type_synonym rule = "getter \<Rightarrow> store \<Rightarrow> unit result"

definition has_key :: "store \<Rightarrow> string \<Rightarrow> bool" where
  "has_key s key = (s key \<noteq> None)"

definition dict_getitem :: "string \<Rightarrow> store \<Rightarrow> pyval result" where
  "dict_getitem key s = (case s key of None \<Rightarrow> (Inl KeyError, s) | Some v \<Rightarrow> (Inr v, s))"

definition setitem :: "string \<Rightarrow> pyval \<Rightarrow> store \<Rightarrow> unit result" where
  "setitem key v s = (Inr (), s(key \<mapsto> v))"

definition delitem :: "string \<Rightarrow> store \<Rightarrow> unit result" where
  "delitem key s = (case s key of None \<Rightarrow> (Inl KeyError, s) | Some v \<Rightarrow> (Inr (), s(key := None)))"

text \<open>The reserved value that marks an entry as volatile.\<close>

definition marker :: pyval where
  "marker = VStr ''%''"

text \<open>
  \<open>Star.__getitem__\<close> (Star.py, lines 177-204), with the derivation dispatch
  \<open>self.missingInput\<close> as its first argument.
\<close>

definition getitem :: "(string \<Rightarrow> store \<Rightarrow> unit result) \<Rightarrow> string \<Rightarrow> store \<Rightarrow> pyval result" where
  "getitem missingInput key s =
     (if \<not> has_key s key then
        (case missingInput key s of
           (Inl e, s1) \<Rightarrow> (Inl e, s1)
         | (Inr u, s1) \<Rightarrow> dict_getitem key s1)
      else if fst (dict_getitem key s) = Inr marker then
        (case delitem key s of
           (Inl e, s0) \<Rightarrow> (Inl e, s0)
         | (Inr u0, s0) \<Rightarrow>
        (case missingInput key s0 of
           (Inl e, s1) \<Rightarrow> (Inl e, s1)
         | (Inr u, s1) \<Rightarrow>
        (case dict_getitem key s1 of
           (Inl e, s2) \<Rightarrow> (Inl e, s2)
         | (Inr val, s2) \<Rightarrow>
        (case setitem key marker s2 of
           (Inl e, s3) \<Rightarrow> (Inl e, s3)
         | (Inr u3, s3) \<Rightarrow> (Inr val, s3)))))
      else dict_getitem key s)"

subsection \<open>Derivation rules that set a default under a guard on their own key\<close>

text \<open>
  Each \<open>calc*\<close> method below is transcribed from Star.py.  The argument \<open>get\<close> is the
  item access \<open>self[...]\<close> the method uses to read other parameters.  They are 44
  methods of the class whose whole body is \<open>if not self.has_key(K): self[K] = default\<close>,
  with \<open>K\<close> the key the method is named after and the default a literal or a copy of
  another parameter.  The class has further methods under the same guard that compute their
  value from other parameters or from files (\<open>calcDUST_TO_GAS\<close>, \<open>calcV_EXP_DUST\<close>
  and others); they are not transcribed.  It also has methods that write a key without that
  guard: \<open>calcSTAR_INDEX\<close> (lines 1250-1268) has no guard, \<open>calcT_DES\<close> (lines
  1595-1641) and \<open>calcDENSTYPE\<close> (lines 1682-1730) are guarded by a pair of keys and
  write both, and \<open>calcDUST_TEMPERATURE_FILENAME\<close> (lines 2053-2104) writes two further
  keys.  Of these, the first two are transcribed in the last section of the definitions, with
  the reference files they read as arguments; the last two read and write files of the
  solvers.  The dispatch reaches the methods outside the 44, \<open>calcTLR\<close> apart, through
  its collaborators.
\<close>

definition calcN_QUAD :: rule where
  "calcN_QUAD get s =
     (if \<not> has_key s ''N_QUAD'' then setitem ''N_QUAD'' (VInt 100) s
      else (Inr (), s))"

definition calcLL_OFFSET :: rule where
  "calcLL_OFFSET get s =
     (if \<not> has_key s ''LL_OFFSET'' then setitem ''LL_OFFSET'' (VFloat 0) s
      else (Inr (), s))"

definition calcUSE_MASER_IN_SPHINX :: rule where
  "calcUSE_MASER_IN_SPHINX get s =
     (if \<not> has_key s ''USE_MASER_IN_SPHINX'' then setitem ''USE_MASER_IN_SPHINX'' (VInt 0) s
      else (Inr (), s))"

definition calcLOGG :: rule where
  "calcLOGG get s =
     (if \<not> has_key s ''LOGG'' then setitem ''LOGG'' (VInt 0) s
      else (Inr (), s))"

definition calcTEMPERATURE_EPSILON_GAS :: rule where
  "calcTEMPERATURE_EPSILON_GAS get s =
     (if \<not> has_key s ''TEMPERATURE_EPSILON_GAS'' then setitem ''TEMPERATURE_EPSILON_GAS'' (VFloat 0.5) s
      else (Inr (), s))"

definition calcTEMPERATURE_EPSILON2_GAS :: rule where
  "calcTEMPERATURE_EPSILON2_GAS get s =
     (if \<not> has_key s ''TEMPERATURE_EPSILON2_GAS'' then setitem ''TEMPERATURE_EPSILON2_GAS'' (VInt 0) s
      else (Inr (), s))"

definition calcRADIUS_EPSILON2_GAS :: rule where
  "calcRADIUS_EPSILON2_GAS get s =
     (if \<not> has_key s ''RADIUS_EPSILON2_GAS'' then setitem ''RADIUS_EPSILON2_GAS'' (VInt 0) s
      else (Inr (), s))"

definition calcTEMPERATURE_EPSILON3_GAS :: rule where
  "calcTEMPERATURE_EPSILON3_GAS get s =
     (if \<not> has_key s ''TEMPERATURE_EPSILON3_GAS'' then setitem ''TEMPERATURE_EPSILON3_GAS'' (VInt 0) s
      else (Inr (), s))"

definition calcRADIUS_EPSILON3_GAS :: rule where
  "calcRADIUS_EPSILON3_GAS get s =
     (if \<not> has_key s ''RADIUS_EPSILON3_GAS'' then setitem ''RADIUS_EPSILON3_GAS'' (VInt 0) s
      else (Inr (), s))"

definition calcDUST_TO_GAS_CHANGE_ML_SP :: rule where
  "calcDUST_TO_GAS_CHANGE_ML_SP get s =
     (if \<not> has_key s ''DUST_TO_GAS_CHANGE_ML_SP'' then
        (case get ''DUST_TO_GAS'' s of
           (Inl e, s1) \<Rightarrow> (Inl e, s1)
         | (Inr v, s1) \<Rightarrow> setitem ''DUST_TO_GAS_CHANGE_ML_SP'' v s1)
      else (Inr (), s))"

definition calcR_INNER_GAS :: rule where
  "calcR_INNER_GAS get s =
     (if \<not> has_key s ''R_INNER_GAS'' then
        (case get ''R_INNER_DUST'' s of
           (Inl e, s1) \<Rightarrow> (Inl e, s1)
         | (Inr v, s1) \<Rightarrow> setitem ''R_INNER_GAS'' v s1)
      else (Inr (), s))"

definition calcUSE_DENSITY_NON_CONSISTENT :: rule where
  "calcUSE_DENSITY_NON_CONSISTENT get s =
     (if \<not> has_key s ''USE_DENSITY_NON_CONSISTENT'' then setitem ''USE_DENSITY_NON_CONSISTENT'' (VInt 0) s
      else (Inr (), s))"

definition calcR_INNER_DUST_MODE :: rule where
  "calcR_INNER_DUST_MODE get s =
     (if \<not> has_key s ''R_INNER_DUST_MODE'' then setitem ''R_INNER_DUST_MODE'' (VStr ''ABSOLUTE'') s
      else (Inr (), s))"

definition calcRID_TEST :: rule where
  "calcRID_TEST get s =
     (if \<not> has_key s ''RID_TEST'' then setitem ''RID_TEST'' (VStr ''R_STAR'') s
      else (Inr (), s))"

definition calcSTAR_NAME :: rule where
  "calcSTAR_NAME get s =
     (if \<not> has_key s ''STAR_NAME'' then setitem ''STAR_NAME'' (VStr ''model'') s
      else (Inr (), s))"

definition calcDATA_MOL :: rule where
  "calcDATA_MOL get s =
     (if \<not> has_key s ''DATA_MOL'' then setitem ''DATA_MOL'' (VInt 0) s
      else (Inr (), s))"

definition calcPATH_GAS_DATA :: rule where
  "calcPATH_GAS_DATA get s =
     (if \<not> has_key s ''PATH_GAS_DATA'' then setitem ''PATH_GAS_DATA'' (VStr ''/home/elvired/allspectra/'') s
      else (Inr (), s))"

definition calcLAST_MCMAX_MODEL :: rule where
  "calcLAST_MCMAX_MODEL get s =
     (if \<not> has_key s ''LAST_MCMAX_MODEL'' then setitem ''LAST_MCMAX_MODEL'' (VStr []) s
      else (Inr (), s))"

definition calcLAST_PACS_MODEL :: rule where
  "calcLAST_PACS_MODEL get s =
     (if \<not> has_key s ''LAST_PACS_MODEL'' then setitem ''LAST_PACS_MODEL'' (VStr []) s
      else (Inr (), s))"

definition calcLAST_GASTRONOOM_MODEL :: rule where
  "calcLAST_GASTRONOOM_MODEL get s =
     (if \<not> has_key s ''LAST_GASTRONOOM_MODEL'' then setitem ''LAST_GASTRONOOM_MODEL'' (VStr []) s
      else (Inr (), s))"

definition calcMDOT_MODE :: rule where
  "calcMDOT_MODE get s =
     (if \<not> has_key s ''MDOT_MODE'' then setitem ''MDOT_MODE'' (VStr ''CONSTANT'') s
      else (Inr (), s))"

definition calcMDOT_GAS_START :: rule where
  "calcMDOT_GAS_START get s =
     (if \<not> has_key s ''MDOT_GAS_START'' then
        (case get ''MDOT_GAS'' s of
           (Inl e, s1) \<Rightarrow> (Inl e, s1)
         | (Inr v, s1) \<Rightarrow> setitem ''MDOT_GAS_START'' v s1)
      else (Inr (), s))"

definition calcRT_SED :: rule where
  "calcRT_SED get s =
     (if \<not> has_key s ''RT_SED'' then setitem ''RT_SED'' (VInt 0) s
      else (Inr (), s))"

definition calcIMAGE :: rule where
  "calcIMAGE get s =
     (if \<not> has_key s ''IMAGE'' then setitem ''IMAGE'' (VInt 0) s
      else (Inr (), s))"

definition calcREDO_OBS :: rule where
  "calcREDO_OBS get s =
     (if \<not> has_key s ''REDO_OBS'' then setitem ''REDO_OBS'' (VInt 0) s
      else (Inr (), s))"

definition calcR_SHELL_UNIT :: rule where
  "calcR_SHELL_UNIT get s =
     (if \<not> has_key s ''R_SHELL_UNIT'' then setitem ''R_SHELL_UNIT'' (VStr ''R_STAR'') s
      else (Inr (), s))"

definition calcMOLECULE :: rule where
  "calcMOLECULE get s =
     (if \<not> has_key s ''MOLECULE'' then setitem ''MOLECULE'' (VList []) s
      else (Inr (), s))"

definition calcR_OUTER_H2O :: rule where
  "calcR_OUTER_H2O get s =
     (if \<not> has_key s ''R_OUTER_H2O'' then setitem ''R_OUTER_H2O'' (VInt 0) s
      else (Inr (), s))"

definition calcNEW_TEMPERATURE_FILENAME_H2O :: rule where
  "calcNEW_TEMPERATURE_FILENAME_H2O get s =
     (if \<not> has_key s ''NEW_TEMPERATURE_FILENAME_H2O'' then setitem ''NEW_TEMPERATURE_FILENAME_H2O'' (VStr []) s
      else (Inr (), s))"

definition calcCHANGE_FRACTION_FILENAME_H2O :: rule where
  "calcCHANGE_FRACTION_FILENAME_H2O get s =
     (if \<not> has_key s ''CHANGE_FRACTION_FILENAME_H2O'' then setitem ''CHANGE_FRACTION_FILENAME_H2O'' (VStr []) s
      else (Inr (), s))"

definition calcSET_KEYWORD_CHANGE_TEMPERATURE_H2O :: rule where
  "calcSET_KEYWORD_CHANGE_TEMPERATURE_H2O get s =
     (if \<not> has_key s ''SET_KEYWORD_CHANGE_TEMPERATURE_H2O'' then setitem ''SET_KEYWORD_CHANGE_TEMPERATURE_H2O'' (VInt 0) s
      else (Inr (), s))"

definition calcSET_KEYWORD_CHANGE_ABUNDANCE_H2O :: rule where
  "calcSET_KEYWORD_CHANGE_ABUNDANCE_H2O get s =
     (if \<not> has_key s ''SET_KEYWORD_CHANGE_ABUNDANCE_H2O'' then setitem ''SET_KEYWORD_CHANGE_ABUNDANCE_H2O'' (VInt 0) s
      else (Inr (), s))"

definition calcENHANCE_ABUNDANCE_FACTOR_H2O :: rule where
  "calcENHANCE_ABUNDANCE_FACTOR_H2O get s =
     (if \<not> has_key s ''ENHANCE_ABUNDANCE_FACTOR_H2O'' then setitem ''ENHANCE_ABUNDANCE_FACTOR_H2O'' (VInt 0) s
      else (Inr (), s))"

definition calcABUNDANCE_FILENAME_H2O :: rule where
  "calcABUNDANCE_FILENAME_H2O get s =
     (if \<not> has_key s ''ABUNDANCE_FILENAME_H2O'' then setitem ''ABUNDANCE_FILENAME_H2O'' (VStr []) s
      else (Inr (), s))"

definition calcSTARTYPE :: rule where
  "calcSTARTYPE get s =
     (if \<not> has_key s ''STARTYPE'' then setitem ''STARTYPE'' (VStr ''BB'') s
      else (Inr (), s))"

definition calcSTARFILE :: rule where
  "calcSTARFILE get s =
     (if \<not> has_key s ''STARFILE'' then setitem ''STARFILE'' (VStr []) s
      else (Inr (), s))"

definition calcLINE_LISTS :: rule where
  "calcLINE_LISTS get s =
     (if \<not> has_key s ''LINE_LISTS'' then setitem ''LINE_LISTS'' (VInt 0) s
      else (Inr (), s))"

definition calcDUST_TO_GAS_INITIAL :: rule where
  "calcDUST_TO_GAS_INITIAL get s =
     (if \<not> has_key s ''DUST_TO_GAS_INITIAL'' then setitem ''DUST_TO_GAS_INITIAL'' (VFloat 0.002) s
      else (Inr (), s))"

definition calcRATIO_12C_TO_13C :: rule where
  "calcRATIO_12C_TO_13C get s =
     (if \<not> has_key s ''RATIO_12C_TO_13C'' then setitem ''RATIO_12C_TO_13C'' (VInt 0) s
      else (Inr (), s))"

definition calcRATIO_16O_TO_17O :: rule where
  "calcRATIO_16O_TO_17O get s =
     (if \<not> has_key s ''RATIO_16O_TO_17O'' then setitem ''RATIO_16O_TO_17O'' (VInt 0) s
      else (Inr (), s))"

definition calcRATIO_16O_TO_18O :: rule where
  "calcRATIO_16O_TO_18O get s =
     (if \<not> has_key s ''RATIO_16O_TO_18O'' then setitem ''RATIO_16O_TO_18O'' (VInt 0) s
      else (Inr (), s))"

definition calcOPR :: rule where
  "calcOPR get s =
     (if \<not> has_key s ''OPR'' then setitem ''OPR'' (VInt 0) s
      else (Inr (), s))"

definition calcUSE_NEW_DUST_KAPPA_FILES :: rule where
  "calcUSE_NEW_DUST_KAPPA_FILES get s =
     (if \<not> has_key s ''USE_NEW_DUST_KAPPA_FILES'' then setitem ''USE_NEW_DUST_KAPPA_FILES'' (VInt 1) s
      else (Inr (), s))"

definition calcR_OH1612_AS :: rule where
  "calcR_OH1612_AS get s =
     (if \<not> has_key s ''R_OH1612_AS'' then setitem ''R_OH1612_AS'' (VInt 0) s
      else (Inr (), s))"

text \<open>The 44 methods above, each with the key it is named after.\<close>

definition guarded_default_rules :: "(string \<times> rule) list" where
  "guarded_default_rules =
    [(''N_QUAD'', calcN_QUAD),
     (''LL_OFFSET'', calcLL_OFFSET),
     (''USE_MASER_IN_SPHINX'', calcUSE_MASER_IN_SPHINX),
     (''LOGG'', calcLOGG),
     (''TEMPERATURE_EPSILON_GAS'', calcTEMPERATURE_EPSILON_GAS),
     (''TEMPERATURE_EPSILON2_GAS'', calcTEMPERATURE_EPSILON2_GAS),
     (''RADIUS_EPSILON2_GAS'', calcRADIUS_EPSILON2_GAS),
     (''TEMPERATURE_EPSILON3_GAS'', calcTEMPERATURE_EPSILON3_GAS),
     (''RADIUS_EPSILON3_GAS'', calcRADIUS_EPSILON3_GAS),
     (''DUST_TO_GAS_CHANGE_ML_SP'', calcDUST_TO_GAS_CHANGE_ML_SP),
     (''R_INNER_GAS'', calcR_INNER_GAS),
     (''USE_DENSITY_NON_CONSISTENT'', calcUSE_DENSITY_NON_CONSISTENT),
     (''R_INNER_DUST_MODE'', calcR_INNER_DUST_MODE),
     (''RID_TEST'', calcRID_TEST),
     (''STAR_NAME'', calcSTAR_NAME),
     (''DATA_MOL'', calcDATA_MOL),
     (''PATH_GAS_DATA'', calcPATH_GAS_DATA),
     (''LAST_MCMAX_MODEL'', calcLAST_MCMAX_MODEL),
     (''LAST_PACS_MODEL'', calcLAST_PACS_MODEL),
     (''LAST_GASTRONOOM_MODEL'', calcLAST_GASTRONOOM_MODEL),
     (''MDOT_MODE'', calcMDOT_MODE),
     (''MDOT_GAS_START'', calcMDOT_GAS_START),
     (''RT_SED'', calcRT_SED),
     (''IMAGE'', calcIMAGE),
     (''REDO_OBS'', calcREDO_OBS),
     (''R_SHELL_UNIT'', calcR_SHELL_UNIT),
     (''MOLECULE'', calcMOLECULE),
     (''R_OUTER_H2O'', calcR_OUTER_H2O),
     (''NEW_TEMPERATURE_FILENAME_H2O'', calcNEW_TEMPERATURE_FILENAME_H2O),
     (''CHANGE_FRACTION_FILENAME_H2O'', calcCHANGE_FRACTION_FILENAME_H2O),
     (''SET_KEYWORD_CHANGE_TEMPERATURE_H2O'', calcSET_KEYWORD_CHANGE_TEMPERATURE_H2O),
     (''SET_KEYWORD_CHANGE_ABUNDANCE_H2O'', calcSET_KEYWORD_CHANGE_ABUNDANCE_H2O),
     (''ENHANCE_ABUNDANCE_FACTOR_H2O'', calcENHANCE_ABUNDANCE_FACTOR_H2O),
     (''ABUNDANCE_FILENAME_H2O'', calcABUNDANCE_FILENAME_H2O),
     (''STARTYPE'', calcSTARTYPE),
     (''STARFILE'', calcSTARFILE),
     (''LINE_LISTS'', calcLINE_LISTS),
     (''DUST_TO_GAS_INITIAL'', calcDUST_TO_GAS_INITIAL),
     (''RATIO_12C_TO_13C'', calcRATIO_12C_TO_13C),
     (''RATIO_16O_TO_17O'', calcRATIO_16O_TO_17O),
     (''RATIO_16O_TO_18O'', calcRATIO_16O_TO_18O),
     (''OPR'', calcOPR),
     (''USE_NEW_DUST_KAPPA_FILES'', calcUSE_NEW_DUST_KAPPA_FILES),
     (''R_OH1612_AS'', calcR_OH1612_AS)]"

subsection \<open>Collaborators of the store\<close>

text \<open>
  What the store needs from outside Star.py: the species list read from Dust.dat at
  construction, Python's parser of float literals, and the derivation rules whose bodies read
  solver output, databases or reference files (\<open>getClassAttr\<close>, \<open>calcR_MAX\<close>,
  \<open>checkT\<close>, \<open>calcT_DES\<close>, and \<open>calc_io\<close> for every other \<open>calc*\<close> method
  found by name, \<open>None\<close> when the class has no method of that name).
\<close>

record env =
  species_list :: "string list"
  float_of_str :: "string \<Rightarrow> real option"
  getClassAttr :: "string \<Rightarrow> rule"
  calcR_MAX :: "string \<Rightarrow> rule"
  checkT :: rule
  calcT_DES :: "string \<Rightarrow> rule"
  calc_io :: "string \<Rightarrow> rule option"

text \<open>Python's \<open>float(v)\<close>.\<close>

definition py_float :: "env \<Rightarrow> pyval \<Rightarrow> error + real" where
  "py_float E v =
     (case v of
        VNone \<Rightarrow> Inl TypeError
      | VInt i \<Rightarrow> Inr (real_of_int i)
      | VFloat r \<Rightarrow> Inr r
      | VStr str \<Rightarrow> (case float_of_str E str of None \<Rightarrow> Inl ValueError | Some r \<Rightarrow> Inr r)
      | VList vs \<Rightarrow> Inl TypeError)"

text \<open>\<open>float(self[key])\<close>.\<close>

definition read_float :: "env \<Rightarrow> getter \<Rightarrow> string \<Rightarrow> store \<Rightarrow> real result" where
  "read_float E get key s =
     (case get key s of
        (Inl e, s1) \<Rightarrow> (Inl e, s1)
      | (Inr v, s1) \<Rightarrow>
          (case py_float E v of Inl e \<Rightarrow> (Inl e, s1) | Inr r \<Rightarrow> (Inr r, s1)))"

text \<open>Float division, and \<open>x ** (1/n.)\<close>, which raises on a negative base.\<close>

definition py_div :: "real \<Rightarrow> real \<Rightarrow> error + real" where
  "py_div a b = (if b = 0 then Inl ZeroDivisionError else Inr (a / b))"

definition py_root :: "nat \<Rightarrow> real \<Rightarrow> error + real" where
  "py_root n x = (if x < 0 then Inl ValueError else Inr (root n x))"

subsection \<open>calcTLR (Star.py, lines 866-893)\<close>

definition calcTLR :: "env \<Rightarrow> rule" where
  "calcTLR E get s =
     (let Tsun = 5778 in
      if \<not> has_key s ''T_STAR'' then
        (case read_float E get ''L_STAR'' s of
           (Inl e, s1) \<Rightarrow> (Inl e, s1)
         | (Inr l, s1) \<Rightarrow>
        (case read_float E get ''R_STAR'' s1 of
           (Inl e, s2) \<Rightarrow> (Inl e, s2)
         | (Inr r, s2) \<Rightarrow>
        (case py_div l (r ^ 2) of
           Inl e \<Rightarrow> (Inl e, s2)
         | Inr q \<Rightarrow>
        (case py_root 4 q of
           Inl e \<Rightarrow> (Inl e, s2)
         | Inr p \<Rightarrow> setitem ''T_STAR'' (VFloat (p * Tsun)) s2))))
      else if \<not> has_key s ''L_STAR'' then
        (case read_float E get ''R_STAR'' s of
           (Inl e, s1) \<Rightarrow> (Inl e, s1)
         | (Inr r, s1) \<Rightarrow>
        (case read_float E get ''T_STAR'' s1 of
           (Inl e, s2) \<Rightarrow> (Inl e, s2)
         | (Inr t, s2) \<Rightarrow> setitem ''L_STAR'' (VFloat (r ^ 2 * (t / Tsun) ^ 4)) s2))
      else if \<not> has_key s ''R_STAR'' then
        (case read_float E get ''L_STAR'' s of
           (Inl e, s1) \<Rightarrow> (Inl e, s1)
         | (Inr l, s1) \<Rightarrow>
        (case read_float E get ''T_STAR'' s1 of
           (Inl e, s2) \<Rightarrow> (Inl e, s2)
         | (Inr t, s2) \<Rightarrow>
        (case py_div Tsun t of
           Inl e \<Rightarrow> (Inl e, s2)
         | Inr q \<Rightarrow>
        (case py_root 2 (l * q ^ 4) of
           Inl e \<Rightarrow> (Inl e, s2)
         | Inr p \<Rightarrow> setitem ''R_STAR'' (VFloat p) s2))))
      else (Inr (), s))"

subsection \<open>missingInput (Star.py, lines 2659-2693)\<close>

text \<open>
  \<open>hasattr(self,'calc' + missing_key)\<close>: the method of that name, if the class has one.
\<close>

definition calc_method :: "env \<Rightarrow> string \<Rightarrow> rule option" where
  "calc_method E key =
     (case map_of guarded_default_rules key of
        Some r \<Rightarrow> Some r
      | None \<Rightarrow> if key = ''TLR'' then Some (calcTLR E) else calc_io E key)"

definition missingInput :: "env \<Rightarrow> getter \<Rightarrow> string \<Rightarrow> store \<Rightarrow> unit result" where
  "missingInput E get missing_key s =
     (if missing_key \<in> set [''T_STAR'', ''L_STAR'', ''R_STAR''] then calcTLR E get s
      else if missing_key \<in> set [''A_K'', ''V_LSR'', ''STAR_NAME_PLOTS'',
                                   ''STAR_NAME_GASTRONOOM'', ''LONG'', ''LAT''] then
        getClassAttr E missing_key get s
      else if missing_key \<in> set (map (\<lambda>species. ''R_MAX_'' @ species) (species_list E)) then
        calcR_MAX E missing_key get s
      else if missing_key \<in> set (map (\<lambda>species. ''R_DES_'' @ species) (species_list E)) then
        checkT E get s
      else if missing_key \<in> set (map (\<lambda>species. ''T_DESA_'' @ species) (species_list E)
                                   @ map (\<lambda>species. ''T_DESB_'' @ species) (species_list E)) then
        calcT_DES E (drop 7 missing_key) get s
      else if missing_key \<in> set (map (\<lambda>species. ''T_DES_'' @ species) (species_list E)) then
        checkT E get s
      else
        (case calc_method E missing_key of
           Some r \<Rightarrow> r get s
         | None \<Rightarrow> (Inr (), s)))"

text \<open>
  \<open>__getitem__\<close>, \<open>missingInput\<close> and the rules call each other through \<open>self[...]\<close>
  without a guard against cycles.  The interpreter bounds the depth of the call stack and
  raises RuntimeError (maximum recursion depth exceeded) beyond it; \<open>d\<close> is the number of
  nested derivations the stack still has room for.
\<close>

primrec star_missingInput :: "env \<Rightarrow> nat \<Rightarrow> string \<Rightarrow> store \<Rightarrow> unit result" where
  "star_missingInput E 0 = (\<lambda>key s. (Inl RuntimeError, s))"
| "star_missingInput E (Suc d) = missingInput E (getitem (star_missingInput E d))"

definition star_getitem :: "env \<Rightarrow> nat \<Rightarrow> getter" where
  "star_getitem E d = getitem (star_missingInput E d)"

text \<open>A store without collaborators: every rule that needs one fails with IOError.\<close>

definition no_io :: env where
  "no_io = \<lparr> species_list = [], float_of_str = (\<lambda>str. None),
             getClassAttr = (\<lambda>key get s. (Inl IOError, s)),
             calcR_MAX = (\<lambda>key get s. (Inl IOError, s)),
             checkT = (\<lambda>get s. (Inl IOError, s)),
             calcT_DES = (\<lambda>species get s. (Inl IOError, s)),
             calc_io = (\<lambda>key. None) \<rparr>"

text \<open>\<open>key\<close> is present, is not volatile, and \<open>float(self[key])\<close> is \<open>x\<close>.\<close>

definition holds_float :: "env \<Rightarrow> store \<Rightarrow> string \<Rightarrow> real \<Rightarrow> bool" where
  "holds_float E s key x =
     (case s key of None \<Rightarrow> False | Some v \<Rightarrow> v \<noteq> marker \<and> py_float E v = Inr x)"

section \<open>Transition.py: transitions\<close>

text \<open>
  The part of a \<open>Molecule\<close> that Transition.py reads: the full name printed in the
  transition string, the kind of level indexing, the number of levels of the vibrational
  ground state, the table of level indices and the lookup \<open>radiat.getTransInfo\<close> in the
  radiative transition table.  The lookup is a collaborator; its result is the frequency entry
  of the row it found, or \<open>None\<close> where it returns \<open>False\<close>.
\<close>

record molecule =
  molecule_full :: string
  spec_indices :: int
  ny_low :: int
  radiat_indices :: "int list list"
  getTransInfo :: "int \<Rightarrow> int \<Rightarrow> real option"

text \<open>
  An observed line profile (a \<open>FitsReader\<close> or \<open>TxtReader\<close>) and a modelled one (a
  \<open>SphinxReader\<close>), as far as \<open>getBestVlsr\<close> reads them.
\<close>

record lprof =
  getVlsr :: real
  getVelocity :: "real list"
  getFlux :: "real list"
  getNoise :: "real \<Rightarrow> real"

record sphinx_profile =
  sphinxVelocity :: "real list"
  getLPTmb :: "real list"

text \<open>
  The attributes of a \<open>Transition\<close>.  An attribute that may be \<open>None\<close>, or that does not
  exist before a method sets it, is an option.  Two transitions of a list are distinct objects
  that share no list of data files; this is how calcGAS_LINES builds them.
\<close>

record transition =
  molecule :: molecule
  telescope :: string
  vup :: int
  jup :: int
  kaup :: int
  kcup :: int
  vlow :: int
  jlow :: int
  kalow :: int
  kclow :: int
  offset :: real
  n_quad :: int
  use_maser_in_sphinx :: int
  vexp :: "real option"
  model_id :: "string option"
  datafiles :: "string list option"
  lpdata :: "lprof list option"
  sphinx :: "sphinx_profile option"
  radiat_trans :: "real option"
  up_i :: int
  low_i :: int
  frequency :: real
  wavelength :: real
  best_vlsr :: "real option"
  chi2_best_vlsr :: "real option"
  dtmb_best_vlsr :: "real list option"

subsection \<open>Formatting\<close>

text \<open>Python's \<open>%i\<close> of an integer and \<open>%.2f\<close> of a float (nearest, ties to even).\<close>

definition digit :: "nat \<Rightarrow> char" where
  "digit n = ''0123456789'' ! n"

fun show_nat :: "nat \<Rightarrow> string" where
  "show_nat n = (if n < 10 then [digit n] else show_nat (n div 10) @ [digit (n mod 10)])"

declare show_nat.simps [simp del]

definition fmt_i :: "int \<Rightarrow> string" where
  "fmt_i i = (if i < 0 then CHR ''-'' # show_nat (nat (- i)) else show_nat (nat i))"

definition round_half_even :: "real \<Rightarrow> int" where
  "round_half_even x =
     (let f = \<lfloor>x\<rfloor>; d = x - of_int f
      in if d < 1 / 2 then f else if 1 / 2 < d then f + 1 else if even f then f else f + 1)"

definition fmt_2f :: "real \<Rightarrow> string" where
  "fmt_2f x =
     (let h = nat (round_half_even (\<bar>x\<bar> * 100))
      in (if x < 0 then ''-'' else [])
         @ show_nat (h div 100) @ ''.'' @ [digit (h mod 100 div 10), digit (h mod 10)])"

text \<open>\<open>str.replace(old, new)\<close>: every occurrence, left to right, without overlap.\<close>

function py_replace :: "string \<Rightarrow> string \<Rightarrow> string \<Rightarrow> string" where
  "py_replace old new s =
     (if old = [] then new @ concat (map (\<lambda>c. c # new) s)
      else if s = [] then []
      else if take (length old) s = old then new @ py_replace old new (drop (length old) s)
      else hd s # py_replace old new (tl s))"
  by pat_completeness auto
termination
  by (relation "measure (\<lambda>(old, new, s). length s)") auto

declare py_replace.simps [simp del]

subsection \<open>Identity: __str__, makeDict, __eq__, __hash__\<close>

text \<open>\<open>Transition.__str__\<close> (lines 439-452).\<close>

definition str_trans :: "transition \<Rightarrow> string" where
  "str_trans t =
     ''TRANSITION='' @ molecule_full (molecule t)
       @ '' '' @ fmt_i (vup t) @ '' '' @ fmt_i (jup t)
       @ '' '' @ fmt_i (kaup t) @ '' '' @ fmt_i (kcup t)
       @ '' '' @ fmt_i (vlow t) @ '' '' @ fmt_i (jlow t)
       @ '' '' @ fmt_i (kalow t) @ '' '' @ fmt_i (kclow t)
       @ '' '' @ telescope t @ '' '' @ fmt_2f (offset t)"

text \<open>
  \<open>Transition.makeDict\<close> (lines 635-660).  Both branches build the dictionary from a list
  of pairs in a fixed order, so two such dictionaries are equal exactly when the lists are.
\<close>

definition makeDict :: "int \<Rightarrow> transition \<Rightarrow> (string \<times> pyval) list" where
  "makeDict in_progress t =
     (if in_progress \<noteq> 0 then
        [(''TRANSITION'', VStr (py_replace ''TRANSITION='' [] (str_trans t))),
         (''N_QUAD'', VInt (n_quad t)),
         (''USE_MASER_IN_SPHINX'', VInt (use_maser_in_sphinx t)),
         (''IN_PROGRESS'', VInt 1)]
      else
        [(''TRANSITION'', VStr (py_replace ''TRANSITION='' [] (str_trans t))),
         (''N_QUAD'', VInt (n_quad t)),
         (''USE_MASER_IN_SPHINX'', VInt (use_maser_in_sphinx t))])"

text \<open>\<open>Transition.__eq__\<close> (lines 456-475), for two transitions.\<close>

definition trans_eq :: "transition \<Rightarrow> transition \<Rightarrow> bool" where
  "trans_eq self other = (if makeDict 0 self = makeDict 0 other then True else False)"

text \<open>
  \<open>Transition.__hash__\<close> (lines 502-514): \<open>hash(str(self.makeDict()))\<close>, with Python's
  \<open>hash\<close> of the printed dictionary as the parameter \<open>H\<close>.
\<close>

definition trans_hash :: "((string \<times> pyval) list \<Rightarrow> int) \<Rightarrow> transition \<Rightarrow> int" where
  "trans_hash H t = H (makeDict 0 t)"

text \<open>
  The canonical descriptor of the specification: molecule identity (the full name), the eight
  quantum numbers, the telescope and the pointing offset.
\<close>

definition canonical_descriptor ::
    "transition \<Rightarrow> string \<times> int list \<times> string \<times> real" where
  "canonical_descriptor t =
     (molecule_full (molecule t),
      [vup t, jup t, kaup t, kcup t, vlow t, jlow t, kalow t, kclow t],
      telescope t, offset t)"

subsection \<open>addDatafile and checkUniqueness\<close>

text \<open>The argument of \<open>addDatafile\<close>: one file name, a list of names, or \<open>None\<close>.\<close>

datatype datafile_arg = OneFile string | Files "string list" | NoFiles

definition datafiles_arg :: "transition \<Rightarrow> datafile_arg" where
  "datafiles_arg t = (case datafiles t of None \<Rightarrow> NoFiles | Some fs \<Rightarrow> Files fs)"

text \<open>
  \<open>Transition.addDatafile\<close> (lines 961-980).  \<open>list.extend(None)\<close> raises TypeError.
\<close>

definition addDatafile :: "transition \<Rightarrow> datafile_arg \<Rightarrow> error + transition" where
  "addDatafile self datafile =
     (case datafile of
        OneFile name \<Rightarrow>
          (case datafiles self of
             None \<Rightarrow> Inr (self\<lparr>datafiles := Some [name]\<rparr>)
           | Some fs \<Rightarrow> Inr (self\<lparr>datafiles := Some (fs @ [name])\<rparr>))
      | Files names \<Rightarrow>
          (case datafiles self of
             None \<Rightarrow> Inr (self\<lparr>datafiles := Some names\<rparr>)
           | Some fs \<Rightarrow> Inr (self\<lparr>datafiles := Some (fs @ names)\<rparr>))
      | NoFiles \<Rightarrow>
          (case datafiles self of
             None \<Rightarrow> Inr (self\<lparr>datafiles := None\<rparr>)
           | Some fs \<Rightarrow> Inl TypeError))"

text \<open>The position of the first element that satisfies \<open>P\<close> (\<open>list.index\<close>, \<open>argmin\<close>).\<close>

fun first_index :: "('a \<Rightarrow> bool) \<Rightarrow> 'a list \<Rightarrow> nat" where
  "first_index P [] = 0"
| "first_index P (x # xs) = (if P x then 0 else Suc (first_index P xs))"

text \<open>
  \<open>checkUniqueness\<close> (lines 226-253): the loop over \<open>trans_list\<close> with the list
  \<open>merged\<close> built so far.  \<open>trans not in merged\<close> and \<open>merged.index(trans)\<close> compare
  with \<open>__eq__\<close>.
\<close>

fun checkUniqueness_loop :: "transition list \<Rightarrow> transition list \<Rightarrow> error + transition list" where
  "checkUniqueness_loop merged [] = Inr merged"
| "checkUniqueness_loop merged (tr # rest) =
     (if \<not> list_ex (\<lambda>m. trans_eq m tr) merged then
        checkUniqueness_loop (merged @ [tr]) rest
      else
        (let i = first_index (\<lambda>m. trans_eq m tr) merged
         in case addDatafile (merged ! i) (datafiles_arg tr) of
              Inl e \<Rightarrow> Inl e
            | Inr m' \<Rightarrow> checkUniqueness_loop (merged[i := m']) rest))"

definition checkUniqueness :: "transition list \<Rightarrow> error + transition list" where
  "checkUniqueness trans_list = checkUniqueness_loop [] trans_list"

subsection \<open>The closing check of calcGAS_LINES (Star.py, lines 2198-2215)\<close>

text \<open>
  The assembled collection is sorted by its transition strings and stored; IOError is raised
  when the number of transitions differs from the number of distinct strings.  The result is
  the exception or normal return, and the collection as stored under \<open>GAS_LINES\<close>.
\<close>

definition check_GAS_LINES :: "transition list \<Rightarrow> (error + unit) \<times> transition list" where
  "check_GAS_LINES gas_lines =
     (let sorted_lines = sort_key str_trans gas_lines;
          requested_transitions = set (map str_trans sorted_lines)
      in if \<not> (length sorted_lines = card requested_transitions) then (Inl IOError, sorted_lines)
         else (Inr (), sorted_lines))"


subsection \<open>Example objects\<close>

text \<open>The CO molecule and its J = 2-1 line observed with APEX, used in the examples.\<close>

definition co :: molecule where
  "co = \<lparr> molecule_full = ''12C16O'', spec_indices = 0, ny_low = 60, radiat_indices = [],
          getTransInfo = (\<lambda>low up. Some 230538000000) \<rparr>"

definition co_2_1 :: transition where
  "co_2_1 = \<lparr> molecule = co, telescope = ''APEX'',
      vup = 0, jup = 2, kaup = 0, kcup = 0, vlow = 0, jlow = 1, kalow = 0, kclow = 0,
      offset = 0, n_quad = 100, use_maser_in_sphinx = 0, vexp = None, model_id = None,
      datafiles = None, lpdata = None, sphinx = None, radiat_trans = Some 230538000000,
      up_i = 3, low_i = 2, frequency = 230538000000, wavelength = 29979245800 / 230538000000,
      best_vlsr = None, chi2_best_vlsr = None, dtmb_best_vlsr = None \<rparr>"

subsection \<open>Vocabulary for the statements about checkUniqueness\<close>

text \<open>
  The identity \<open>__eq__\<close> compares, the data files a transition carries, and the elements of
  a list in the order of their first occurrence.
\<close>

abbreviation ident :: "transition \<Rightarrow> (string \<times> pyval) list" where
  "ident t \<equiv> makeDict 0 t"

definition files_of :: "transition \<Rightarrow> string list" where
  "files_of t = (case datafiles t of None \<Rightarrow> [] | Some fs \<Rightarrow> fs)"

fun first_seen :: "'a list \<Rightarrow> 'a list" where
  "first_seen [] = []"
| "first_seen (x # xs) = x # first_seen (removeAll x xs)"

subsection \<open>Index resolution (Transition.__setIndices, lines 758-798)\<close>

text \<open>
  \<open>raw_input\<close> reads one line from the console, given as the list of lines still to come,
  and raises EOFError when there is none.  \<open>list_index\<close> is \<open>list.index\<close>.
\<close>

definition raw_input :: "string list \<Rightarrow> (error + string) \<times> string list" where
  "raw_input console =
     (case console of [] \<Rightarrow> (Inl EOFError, []) | line # later \<Rightarrow> (Inr line, later))"

definition list_index :: "'a list \<Rightarrow> 'a \<Rightarrow> error + nat" where
  "list_index xs x =
     (if x \<in> set xs then Inr (first_index (\<lambda>y. y = x) xs) else Inl ValueError)"

definition row_head :: "int list list \<Rightarrow> nat \<Rightarrow> error + int" where
  "row_head indices k = (case indices ! k of [] \<Rightarrow> Inl IndexError | i # is \<Rightarrow> Inr i)"

text \<open>Lines 772-792: the indices of the upper and the lower level.\<close>

definition resolve_indices :: "transition \<Rightarrow> error + transition" where
  "resolve_indices t =
     (if spec_indices (molecule t) = 0 then
        Inr (t\<lparr>up_i := jup t + vup t * ny_low (molecule t) + 1,
               low_i := jlow t + vlow t * ny_low (molecule t) + 1\<rparr>)
      else
        (let indices = radiat_indices (molecule t)
         in case indices of
              [] \<Rightarrow> Inl IndexError
            | row0 # rows \<Rightarrow>
                (let quantum_up = take (length row0 - 1) [vup t, jup t, kaup t, kcup t];
                     quantum_low = take (length row0 - 1) [vlow t, jlow t, kalow t, kclow t]
                 in case list_index (map (drop 1) indices) quantum_up of
                      Inl e \<Rightarrow> Inl e
                    | Inr ku \<Rightarrow>
                   (case row_head indices ku of
                      Inl e \<Rightarrow> Inl e
                    | Inr u \<Rightarrow>
                   (case list_index (map (drop 1) indices) quantum_low of
                      Inl e \<Rightarrow> Inl e
                    | Inr kl \<Rightarrow>
                   (case row_head indices kl of
                      Inl e \<Rightarrow> Inl e
                    | Inr l \<Rightarrow> Inr (t\<lparr>up_i := u, low_i := l\<rparr>)))))))"

text \<open>
  Lines 793-798.  After the prompt the method goes on to
  \<open>float(self.radiat_trans['frequency'])\<close>; subscripting \<open>False\<close> raises TypeError.
\<close>

definition setIndices :: "string list \<Rightarrow> transition \<Rightarrow> (error + transition) \<times> string list" where
  "setIndices console t =
     (case resolve_indices t of
        Inl e \<Rightarrow> (Inl e, console)
      | Inr t1 \<Rightarrow>
          (let t2 = t1\<lparr>radiat_trans := getTransInfo (molecule t1) (low_i t1) (up_i t1)\<rparr>
           in case (if radiat_trans t2 = None then raw_input console else (Inr [], console)) of
                (Inl e, console1) \<Rightarrow> (Inl e, console1)
              | (Inr line, console1) \<Rightarrow>
                  (case radiat_trans t2 of
                     None \<Rightarrow> (Inl TypeError, console1)
                   | Some f \<Rightarrow> (Inr (t2\<lparr>frequency := f\<rparr>), console1))))"

text \<open>
  The end of \<open>Transition.__init__\<close> (lines 430-435), on the object \<open>t\<close> that lines 395-429
  have filled from the arguments; \<open>frequency_arg\<close> is the argument \<open>frequency\<close>.
\<close>

definition Transition_init ::
    "string list \<Rightarrow> real option \<Rightarrow> transition \<Rightarrow> (error + transition) \<times> string list" where
  "Transition_init console frequency_arg t =
     (case (case frequency_arg of
              None \<Rightarrow> setIndices console t
            | Some f \<Rightarrow> (Inr (t\<lparr>frequency := f\<rparr>), console)) of
        (Inl e, console1) \<Rightarrow> (Inl e, console1)
      | (Inr t1, console1) \<Rightarrow>
          (case py_div 29979245800 (frequency t1) of
             Inl e \<Rightarrow> (Inl e, console1)
           | Inr w \<Rightarrow> (Inr (t1\<lparr>wavelength := w, best_vlsr := None\<rparr>), console1)))"

subsection \<open>Collaborators of getBestVlsr\<close>

text \<open>
  The readers of observed data and of solver output, \<open>scipy.interpolate.interp1d\<close> (the
  interpolator built from the data and applied to new abscissae) and \<open>calcChiSquared\<close> of
  cc.statistics.BasicStats.  \<open>SphinxReader\<close> stands for the reader applied to the file name
  the transition builds.  A reader object is taken to be true in a condition.
\<close>

record collab =
  FitsReader :: "string \<Rightarrow> real option \<Rightarrow> error + lprof"
  TxtReader :: "string \<Rightarrow> real option \<Rightarrow> error + lprof"
  SphinxReader :: "transition \<Rightarrow> error + sphinx_profile"
  interp1d :: "real list \<Rightarrow> real list \<Rightarrow> real list \<Rightarrow> error + real list"
  calcChiSquared :: "real list \<Rightarrow> real list \<Rightarrow> real \<Rightarrow> real"

subsection \<open>readData and readSphinx (lines 944-1004)\<close>

fun read_datafiles ::
    "collab \<Rightarrow> real option \<Rightarrow> string list \<Rightarrow> lprof list \<Rightarrow> (error + unit) \<times> lprof list" where
  "read_datafiles C vlsr [] acc = (Inr (), acc)"
| "read_datafiles C vlsr (df # dfs) acc =
     (case (if drop (length df - 5) df = ''.fits'' then FitsReader C df vlsr
            else TxtReader C df vlsr) of
        Inl e \<Rightarrow> (Inl e, acc)
      | Inr lprof \<Rightarrow> read_datafiles C vlsr dfs (acc @ [lprof]))"

definition readData :: "collab \<Rightarrow> real option \<Rightarrow> transition \<Rightarrow> (error + unit) \<times> transition" where
  "readData C vlsr t =
     (if lpdata t = None then
        (case datafiles t of
           None \<Rightarrow> (Inr (), t\<lparr>lpdata := Some []\<rparr>)
         | Some dfs \<Rightarrow>
             (case read_datafiles C vlsr dfs [] of
                (r, acc) \<Rightarrow> (r, t\<lparr>lpdata := Some acc\<rparr>)))
      else (Inr (), t))"

definition readSphinx :: "collab \<Rightarrow> transition \<Rightarrow> (error + unit) \<times> transition" where
  "readSphinx C t =
     (if sphinx t = None \<and> model_id t \<noteq> None \<and> model_id t \<noteq> Some [] then
        (case SphinxReader C t of
           Inl e \<Rightarrow> (Inl e, t)
         | Inr sp \<Rightarrow> (Inr (), t\<lparr>sphinx := Some sp\<rparr>))
      else (Inr (), t))"

subsection \<open>getBestVlsr (lines 1031-1113)\<close>

text \<open>\<open>numpy.linspace(start, stop, num)\<close> with the end point included.\<close>

definition linspace :: "real \<Rightarrow> real \<Rightarrow> nat \<Rightarrow> real list" where
  "linspace start stop num =
     (if num = 0 then []
      else if num = 1 then [start]
      else map (\<lambda>i. real i * ((stop - start) / real (num - 1)) + start) [0..<num - 1] @ [stop])"

text \<open>Indexing an array with a boolean mask, and the first position of the minimum.\<close>

definition select :: "bool list \<Rightarrow> 'a list \<Rightarrow> 'a list" where
  "select keep xs = map snd (filter fst (zip keep xs))"

definition argmin :: "real list \<Rightarrow> nat" where
  "argmin xs = first_index (\<lambda>x. x = min_list xs) xs"

text \<open>A list comprehension whose element expression may raise.\<close>

fun map_err :: "('a \<Rightarrow> error + 'b) \<Rightarrow> 'a list \<Rightarrow> error + 'b list" where
  "map_err f [] = Inr []"
| "map_err f (x # xs) =
     (case f x of
        Inl e \<Rightarrow> Inl e
      | Inr y \<Rightarrow> (case map_err f xs of Inl e \<Rightarrow> Inl e | Inr ys \<Rightarrow> Inr (y # ys)))"

text \<open>The local variables of lines 1096-1103.\<close>

definition range_in_vlsr :: "real \<Rightarrow> real \<Rightarrow> real list" where
  "range_in_vlsr vlsr ve = linspace (vlsr - 0.5 * ve) (vlsr + 0.5 * ve) 31"

definition dtmb_interp ::
    "collab \<Rightarrow> lprof \<Rightarrow> sphinx_profile \<Rightarrow> real list \<Rightarrow> error + real list list" where
  "dtmb_interp C lp sp grid =
     map_err (\<lambda>vlsri. interp1d C (getVelocity lp) (getFlux lp)
                         (map (\<lambda>v. v + vlsri) (sphinxVelocity sp))) grid"

definition chisquared_at :: "collab \<Rightarrow> real \<Rightarrow> real list \<Rightarrow> real list \<Rightarrow> real" where
  "chisquared_at C noise mtmb dtmbi =
     (let keep = map (\<lambda>d. - noise \<le> d) dtmbi
      in calcChiSquared C (select keep dtmbi) (select keep mtmb) noise)"

definition chisquared :: "collab \<Rightarrow> real \<Rightarrow> real list \<Rightarrow> real list list \<Rightarrow> real list" where
  "chisquared C noise mtmb interp = map (chisquared_at C noise mtmb) interp"

text \<open>Lines 1087-1113: the grid search, once data, model and \<open>vexp\<close> are there.\<close>

definition grid_search ::
    "collab \<Rightarrow> real \<Rightarrow> real \<Rightarrow> lprof \<Rightarrow> sphinx_profile \<Rightarrow> transition
       \<Rightarrow> (error + real option) \<times> transition" where
  "grid_search C vlsr ve lp sp t =
     (let noise = getNoise lp ve;
          mtmb = getLPTmb sp;
          grid = range_in_vlsr vlsr ve
      in case dtmb_interp C lp sp grid of
           Inl e \<Rightarrow> (Inl e, t)
         | Inr interp \<Rightarrow>
             (let chis = chisquared C noise mtmb interp;
                  t1 = t\<lparr>chi2_best_vlsr := Some (min_list chis)\<rparr>;
                  t2 = t1\<lparr>best_vlsr := Some (grid ! argmin chis)\<rparr>;
                  t3 = t2\<lparr>dtmb_best_vlsr := Some (interp ! argmin chis)\<rparr>
              in (Inr (best_vlsr t3), t3)))"

definition getBestVlsr ::
    "collab \<Rightarrow> real option \<Rightarrow> transition \<Rightarrow> (error + real option) \<times> transition" where
  "getBestVlsr C vlsr t =
     (if best_vlsr t \<noteq> None then (Inr (best_vlsr t), t)
      else
        (case readData C vlsr t of
           (Inl e, t1) \<Rightarrow> (Inl e, t1)
         | (Inr u, t1) \<Rightarrow>
             (case lpdata t1 of
                None \<Rightarrow> (Inr vlsr, t1)
              | Some [] \<Rightarrow> (Inr vlsr, t1)
              | Some (lp # lps) \<Rightarrow>
                  (let vlsr1 = getVlsr lp
                   in case readSphinx C t1 of
                        (Inl e, t2) \<Rightarrow> (Inl e, t2)
                      | (Inr u2, t2) \<Rightarrow>
                          (case sphinx t2 of
                             None \<Rightarrow> (Inr (Some vlsr1), t2)
                           | Some sp \<Rightarrow>
                               (case vexp t2 of
                                  None \<Rightarrow> (Inr (Some vlsr1), t2)
                                | Some ve \<Rightarrow> grid_search C vlsr1 ve lp sp t2))))))"

subsection \<open>Stand-ins for the collaborators in the examples\<close>

text \<open>
  Modelled from the spec: \<open>calcChiSquared\<close> of cc.statistics.BasicStats is not among the
  sources.  The specification defines the chi-squared score as the sum of squared residuals
  between observed and modelled flux, normalised by the noise.
\<close>

definition calcChiSquared_spec :: "real list \<Rightarrow> real list \<Rightarrow> real \<Rightarrow> real" where
  "calcChiSquared_spec data model noise =
     sum_list (map (\<lambda>(d, m). ((d - m) / noise) ^ 2) (zip data model))"

text \<open>
  \<open>scipy.interpolate.interp1d\<close> with its default arguments, as documented: linear
  interpolation between the knots \<open>x\<close> (increasing) and a ValueError for an abscissa outside
  their range.
\<close>

fun interp_point :: "real list \<Rightarrow> real list \<Rightarrow> real \<Rightarrow> real option" where
  "interp_point (x0 # x1 # xs) (y0 # y1 # ys) x =
     (if x0 \<le> x \<and> x \<le> x1 then Some ((y1 - y0) / (x1 - x0) * (x - x0) + y0)
      else interp_point (x1 # xs) (y1 # ys) x)"
| "interp_point xs ys x = None"

definition linear_interp1d :: "real list \<Rightarrow> real list \<Rightarrow> real list \<Rightarrow> error + real list" where
  "linear_interp1d x y x_new =
     (if length x \<noteq> length y then Inl ValueError
      else case those (map (interp_point x y) x_new) of
             None \<Rightarrow> Inl ValueError
           | Some y_new \<Rightarrow> Inr y_new)"

definition no_files :: collab where
  "no_files = \<lparr> FitsReader = (\<lambda>df vlsr. Inl IOError), TxtReader = (\<lambda>df vlsr. Inl IOError),
                SphinxReader = (\<lambda>t. Inl IOError), interp1d = linear_interp1d,
                calcChiSquared = calcChiSquared_spec \<rparr>"

text \<open>
  A modelled profile with one peak, and an observed profile that is the same peak moved to
  velocity 12 on a flat baseline; the data report a source velocity of 10.
\<close>

definition triangle :: sphinx_profile where
  "triangle = \<lparr> sphinxVelocity = [-1, 0, 1], getLPTmb = [0, 1, 0] \<rparr>"

definition shifted_triangle :: lprof where
  "shifted_triangle = \<lparr> getVlsr = 10, getVelocity = [-100, 11, 12, 13, 100],
      getFlux = [0, 0, 1, 0, 0], getNoise = (\<lambda>vexp. 1) \<rparr>"

definition co_2_1_observed :: transition where
  "co_2_1_observed = co_2_1\<lparr>vexp := Some 30, lpdata := Some [shifted_triangle],
      sphinx := Some triangle\<rparr>"


section \<open>Star.py: rules that write a key that may be present\<close>

subsection \<open>calcSTAR_INDEX (Star.py, lines 1250-1268)\<close>


subsection \<open>calcT_DES (Star.py, lines 1595-1641)\<close>

text \<open>The truth value of a Python value, as \<open>if v\<close> and \<open>not v\<close> take it.\<close>

definition py_bool :: "pyval \<Rightarrow> bool" where
  "py_bool v =
     (case v of
        VNone \<Rightarrow> False
      | VInt i \<Rightarrow> i \<noteq> 0
      | VFloat r \<Rightarrow> r \<noteq> 0
      | VStr str \<Rightarrow> str \<noteq> []
      | VList vs \<Rightarrow> vs \<noteq> [])"

text \<open>
  The operand of \<open>10.0**(4)*v\<close> and \<open>10.0**(4)/v\<close>: a number, or TypeError.
\<close>

definition py_number :: "pyval \<Rightarrow> error + real" where
  "py_number v =
     (case v of
        VInt i \<Rightarrow> Inr (real_of_int i)
      | VFloat r \<Rightarrow> Inr r
      | VNone \<Rightarrow> Inl TypeError
      | VStr str \<Rightarrow> Inl TypeError
      | VList vs \<Rightarrow> Inl TypeError)"

text \<open>
  The columns \<open>T_DESA\<close>, \<open>T_DESB\<close> and \<open>T_DES\<close> of Dust.dat, as
  \<open>DataIO.getInputData(..., keyword=..., filename='Dust.dat')\<close> gives them: a list with one
  entry per dust species, or the exception raised reading the file.
\<close>

record dust_dat =
  T_DESA_column :: "error + pyval list"
  T_DESB_column :: "error + pyval list"
  T_DES_column :: "error + pyval list"

definition column_item :: "(error + pyval list) \<Rightarrow> nat \<Rightarrow> error + pyval" where
  "column_item column i =
     (case column of
        Inl e \<Rightarrow> Inl e
      | Inr vs \<Rightarrow> if i < length vs then Inr (vs ! i) else Inl IndexError)"

text \<open>
  Lines 1621-1639, the handler of KeyError: the coefficients come from Dust.dat, at the
  position of the species in \<open>self.species_list\<close> (here \<open>dust_species\<close>).  An
  exception raised here leaves the method.
\<close>

definition T_DES_from_Dust_dat :: "dust_dat \<Rightarrow> string list \<Rightarrow> string \<Rightarrow> store \<Rightarrow> unit result" where
  "T_DES_from_Dust_dat D dust_species species s =
     (case list_index dust_species species of
        Inl e \<Rightarrow> (Inl e, s)
      | Inr species_index \<Rightarrow>
     (case column_item (T_DESA_column D) species_index of
        Inl e \<Rightarrow> (Inl e, s)
      | Inr species_tdesa \<Rightarrow>
        if py_bool species_tdesa then
          (case column_item (T_DESB_column D) species_index of
             Inl e \<Rightarrow> (Inl e, s)
           | Inr species_tdesb \<Rightarrow>
          (case py_number species_tdesb of
             Inl e \<Rightarrow> (Inl e, s)
           | Inr b \<Rightarrow>
          (case py_number species_tdesa of
             Inl e \<Rightarrow> (Inl e, s)
           | Inr a \<Rightarrow>
          (case setitem (''T_DESA_'' @ species) (VFloat (10 ^ 4 * b / a)) s of
             (Inl e, s1) \<Rightarrow> (Inl e, s1)
           | (Inr u, s1) \<Rightarrow> setitem (''T_DESB_'' @ species) (VFloat (10 ^ 4 / a)) s1))))
        else
          (case column_item (T_DES_column D) species_index of
             Inl e \<Rightarrow> (Inl e, s)
           | Inr species_tdes \<Rightarrow>
          (case py_number species_tdes of
             Inl e \<Rightarrow> (Inl e, s)
           | Inr t \<Rightarrow>
          (case py_div (10 ^ 4) t of
             Inl e \<Rightarrow> (Inl e, s)
           | Inr q \<Rightarrow>
          (case setitem (''T_DESA_'' @ species) (VFloat q) s of
             (Inl e, s1) \<Rightarrow> (Inl e, s1)
           | (Inr u, s1) \<Rightarrow> setitem (''T_DESB_'' @ species) (VFloat (1 / 10 ^ 4)) s1))))))"

text \<open>
  Lines 1615-1620, the body of the \<open>try\<close>: \<open>T_MAX_SPECIES\<close> is read, deleted when it is
  false, and read again for the division.
\<close>

definition T_DES_from_T_MAX :: "getter \<Rightarrow> string \<Rightarrow> store \<Rightarrow> unit result" where
  "T_DES_from_T_MAX get species s =
     (case get (''T_MAX_'' @ species) s of
        (Inl e, s1) \<Rightarrow> (Inl e, s1)
      | (Inr v, s1) \<Rightarrow>
     (case (if \<not> py_bool v then delitem (''T_MAX_'' @ species) s1 else (Inr (), s1)) of
        (Inl e, s2) \<Rightarrow> (Inl e, s2)
      | (Inr u, s2) \<Rightarrow>
     (case get (''T_MAX_'' @ species) s2 of
        (Inl e, s3) \<Rightarrow> (Inl e, s3)
      | (Inr t_max, s3) \<Rightarrow>
     (case py_number t_max of
        Inl e \<Rightarrow> (Inl e, s3)
      | Inr t \<Rightarrow>
     (case py_div (10 ^ 4) t of
        Inl e \<Rightarrow> (Inl e, s3)
      | Inr q \<Rightarrow>
     (case setitem (''T_DESA_'' @ species) (VFloat q) s3 of
        (Inl e, s4) \<Rightarrow> (Inl e, s4)
      | (Inr u', s4) \<Rightarrow> setitem (''T_DESB_'' @ species) (VFloat (1 / 10 ^ 4)) s4))))))"

text \<open>
  The method: when one of the two coefficients is missing, both are written.  Its name in
  Star.py is \<open>calcT_DES\<close>; here that name is the field of \<open>env\<close> which this definition
  can fill.
\<close>

definition Star_calcT_DES :: "dust_dat \<Rightarrow> string list \<Rightarrow> string \<Rightarrow> rule" where
  "Star_calcT_DES D dust_species species get s =
     (if \<not> has_key s (''T_DESA_'' @ species) \<or> \<not> has_key s (''T_DESB_'' @ species) then
        (case T_DES_from_T_MAX get species s of
           (Inl e, s1) \<Rightarrow>
             if e = KeyError then T_DES_from_Dust_dat D dust_species species s1
             else (Inl e, s1)
         | (Inr u, s1) \<Rightarrow> (Inr u, s1))
      else (Inr (), s))"

text \<open>
  A store whose dust species are \<open>species\<close> and whose rule for the coefficients is the
  method above; every other collaborator fails as in \<open>no_io\<close>.
\<close>

definition dust_env :: "dust_dat \<Rightarrow> string list \<Rightarrow> env" where
  "dust_env D species =
     no_io \<lparr> species_list := species, calcT_DES := Star_calcT_DES D species \<rparr>"


section \<open>Properties of the parameter store\<close>

lemma getitem_volatile:
  assumes "s key = Some marker"
  shows "getitem mi key s =
     (case mi key (s(key := None)) of
        (Inl e, s1) \<Rightarrow> (Inl e, s1)
      | (Inr u, s1) \<Rightarrow>
          (case s1 key of
             None \<Rightarrow> (Inl KeyError, s1)
           | Some v \<Rightarrow> (Inr v, s1(key \<mapsto> marker))))"
  using assms
  by (simp add: getitem_def has_key_def dict_getitem_def delitem_def setitem_def
           split: prod.splits sum.splits option.splits)


lemma getitem_absent:
  assumes "s key = None"
  shows "getitem mi key s =
     (case mi key s of
        (Inl e, s1) \<Rightarrow> (Inl e, s1)
      | (Inr u, s1) \<Rightarrow> dict_getitem key s1)"
  using assms by (simp add: getitem_def has_key_def)

lemma getitem_present:
  assumes "s key = Some v" and "v \<noteq> marker"
  shows "getitem mi key s = (Inr v, s)"
  using assms by (simp add: getitem_def has_key_def dict_getitem_def)

subsection \<open>C1: reading a volatile entry\<close>

text \<open>
  C1, as stated, at a key that no rule derives: the store holds the marker under
  \<open>FOO\<close>, the class has no method \<open>calcFOO\<close>, the read deletes the entry, the dispatch does
  nothing, the read raises KeyError, and the marker is gone from the store afterwards.
\<close>

theorem C1_volatile_underivable_counterexample:
  "fst (star_getitem no_io (Suc 0) ''FOO'' [''FOO'' \<mapsto> marker]) = Inl KeyError
   \<and> snd (star_getitem no_io (Suc 0) ''FOO'' [''FOO'' \<mapsto> marker]) ''FOO'' = None"
  by (simp add: star_getitem_def getitem_volatile missingInput_def calc_method_def
        guarded_default_rules_def no_io_def)

text \<open>
  C1, amended: when the stored value of \<open>key\<close> is the marker and the dispatch, run on the
  store with the entry deleted, returns normally and leaves a value \<open>v\<close> under \<open>key\<close>, the
  read returns \<open>v\<close> and leaves the store as the dispatch left it except that \<open>key\<close> holds
  the marker again; hence the next read, with whatever dispatch \<open>mi'\<close>, deletes the entry
  and runs the dispatch again.
\<close>

theorem C1_volatile_read:
  assumes "s key = Some marker"
    and "mi key (s(key := None)) = (Inr (), s1)"
    and "s1 key = Some v"
  shows "getitem mi key s = (Inr v, s1(key \<mapsto> marker))
    \<and> snd (getitem mi key s) key = Some marker
    \<and> getitem mi' key (s1(key \<mapsto> marker)) =
        (case mi' key (s1(key := None)) of
           (Inl e, s2) \<Rightarrow> (Inl e, s2)
         | (Inr u, s2) \<Rightarrow>
             (case s2 key of
                None \<Rightarrow> (Inl KeyError, s2)
              | Some w \<Rightarrow> (Inr w, s2(key \<mapsto> marker))))"
proof -
  have first: "getitem mi key s = (Inr v, s1(key \<mapsto> marker))"
    using assms by (simp add: getitem_volatile)
  have again: "(s1(key \<mapsto> marker)) key = Some marker"
    by simp
  have del: "(s1(key \<mapsto> marker))(key := None) = s1(key := None)"
    by simp
  show ?thesis
    using first getitem_volatile [where s = "s1(key \<mapsto> marker)" and key = key and mi = mi']
    by (simp only: again del fst_conv snd_conv simp_thms fun_upd_same)
qed

theorem C1_volatile_read_witness:
  "[''N_QUAD'' \<mapsto> marker] ''N_QUAD'' = Some marker
   \<and> star_missingInput no_io (Suc 0) ''N_QUAD'' ([''N_QUAD'' \<mapsto> marker](''N_QUAD'' := None))
       = (Inr (), [''N_QUAD'' \<mapsto> VInt 100])
   \<and> [''N_QUAD'' \<mapsto> VInt 100] ''N_QUAD'' = Some (VInt 100)
   \<and> getitem (star_missingInput no_io (Suc 0)) ''N_QUAD'' [''N_QUAD'' \<mapsto> marker]
       = (Inr (VInt 100), [''N_QUAD'' \<mapsto> VInt 100, ''N_QUAD'' \<mapsto> marker])"
proof -
  have h1: "[''N_QUAD'' \<mapsto> marker] ''N_QUAD'' = Some marker"
    by simp
  have h2: "star_missingInput no_io (Suc 0) ''N_QUAD''
              ([''N_QUAD'' \<mapsto> marker](''N_QUAD'' := None))
            = (Inr (), [''N_QUAD'' \<mapsto> VInt 100])"
    by (simp add: missingInput_def calc_method_def guarded_default_rules_def no_io_def
          calcN_QUAD_def has_key_def setitem_def)
  have h3: "[''N_QUAD'' \<mapsto> VInt 100] ''N_QUAD'' = Some (VInt 100)"
    by simp
  show ?thesis
    using h1 h2 h3
      C1_volatile_read [where s = "[''N_QUAD'' \<mapsto> marker]" and key = "''N_QUAD''"
        and mi = "star_missingInput no_io (Suc 0)" and ?s1.0 = "[''N_QUAD'' \<mapsto> VInt 100]"
        and v = "VInt 100"]
    by simp
qed


subsection \<open>C2: a second read costs no derivation; which rules leave a present value alone\<close>








text \<open>
  \<open>calcT_DES\<close> tests both coefficients and writes both.  With the two present it does
  nothing.  With \<open>T_DESA_AMC\<close> given as 5, \<open>T_DESB_AMC\<close> missing and \<open>T_MAX_AMC\<close>
  given as 1000, the read of \<open>T_DESB_AMC\<close> returns \<open>10.0**(-4)\<close> and leaves
  \<open>10.0**(4)/1000\<close> under \<open>T_DESA_AMC\<close>, whatever Dust.dat holds.
\<close>

lemma calcT_DES_both_present:
  assumes "has_key s (''T_DESA_'' @ species)" and "has_key s (''T_DESB_'' @ species)"
  shows "Star_calcT_DES D dust_species species get s = (Inr (), s)"
  using assms by (simp add: Star_calcT_DES_def)

lemma read_T_DESB_overwrites_T_DESA:
  "fst (star_getitem (dust_env D [''AMC'']) (Suc 0) ''T_DESB_AMC''
          [''T_DESA_AMC'' \<mapsto> VFloat 5, ''T_MAX_AMC'' \<mapsto> VFloat 1000])
     = Inr (VFloat (1 / 10 ^ 4))
   \<and> snd (star_getitem (dust_env D [''AMC'']) (Suc 0) ''T_DESB_AMC''
          [''T_DESA_AMC'' \<mapsto> VFloat 5, ''T_MAX_AMC'' \<mapsto> VFloat 1000]) ''T_DESA_AMC''
     = Some (VFloat 10)"
  by (simp add: star_getitem_def getitem_absent getitem_present missingInput_def dust_env_def
        no_io_def Star_calcT_DES_def T_DES_from_T_MAX_def has_key_def marker_def py_bool_def
        py_number_def py_div_def setitem_def dict_getitem_def)


subsection \<open>C3: Stefan-Boltzmann\<close>

lemma read_float_present:
  assumes "s key = Some v" and "v \<noteq> marker" and "py_float E v = Inr x"
  shows "read_float E (getitem mi) key s = (Inr x, s)"
  using assms by (simp add: read_float_def getitem_present)

lemma calcTLR_noop:
  assumes "has_key s ''T_STAR''" and "has_key s ''L_STAR''" and "has_key s ''R_STAR''"
  shows "calcTLR E get s = (Inr (), s)"
  using assms by (simp add: calcTLR_def)

lemma calcTLR_T:
  assumes "s ''T_STAR'' = None"
    and "s ''L_STAR'' = Some lv" and "lv \<noteq> marker" and "py_float E lv = Inr L"
    and "s ''R_STAR'' = Some rv" and "rv \<noteq> marker" and "py_float E rv = Inr R"
    and "R \<noteq> 0" and "0 \<le> L"
  shows "calcTLR E (getitem mi) s
         = (Inr (), s(''T_STAR'' \<mapsto> VFloat (root 4 (L / R ^ 2) * 5778)))"
proof -
  have "\<not> L / R ^ 2 < 0"
    using assms(9) by (simp add: not_less)
  then show ?thesis
    using assms
    by (simp add: calcTLR_def has_key_def read_float_present py_div_def py_root_def
          setitem_def)
qed

lemma calcTLR_L:
  assumes "s ''T_STAR'' = Some tv" and "tv \<noteq> marker" and "py_float E tv = Inr T"
    and "s ''L_STAR'' = None"
    and "s ''R_STAR'' = Some rv" and "rv \<noteq> marker" and "py_float E rv = Inr R"
  shows "calcTLR E (getitem mi) s
         = (Inr (), s(''L_STAR'' \<mapsto> VFloat (R ^ 2 * (T / 5778) ^ 4)))"
  using assms
  by (simp add: calcTLR_def has_key_def read_float_present setitem_def)

lemma calcTLR_R:
  assumes "s ''T_STAR'' = Some tv" and "tv \<noteq> marker" and "py_float E tv = Inr T"
    and "s ''L_STAR'' = Some lv" and "lv \<noteq> marker" and "py_float E lv = Inr L"
    and "s ''R_STAR'' = None"
    and "T \<noteq> 0" and "0 \<le> L"
  shows "calcTLR E (getitem mi) s
         = (Inr (), s(''R_STAR'' \<mapsto> VFloat (sqrt L * (5778 / T) ^ 2)))"
proof -
  have nonneg: "\<not> L * (5778 / T) ^ 4 < 0"
    using assms(9) by (simp add: not_less)
  have "(5778 / T) ^ 4 = ((5778 / T) ^ 2) ^ 2"
    by simp
  then have "sqrt (L * (5778 / T) ^ 4) = sqrt L * (5778 / T) ^ 2"
    by (simp only: real_sqrt_mult real_sqrt_abs abs_power2)
  then have "root 2 (L * (5778 / T) ^ 4) = sqrt L * (5778 / T) ^ 2"
    by (simp add: sqrt_def)
  then show ?thesis
    using assms nonneg
    by (simp add: calcTLR_def has_key_def read_float_present py_div_def py_root_def
          setitem_def del: power_divide)
qed

lemma read_R_STAR:
  assumes "s ''T_STAR'' = Some tv" and "tv \<noteq> marker" and "py_float E tv = Inr T"
    and "s ''L_STAR'' = Some lv" and "lv \<noteq> marker" and "py_float E lv = Inr L"
    and "s ''R_STAR'' = None"
    and "T \<noteq> 0" and "0 \<le> L"
  shows "star_getitem E (Suc d) ''R_STAR'' s
         = (Inr (VFloat (sqrt L * (5778 / T) ^ 2)),
            s(''R_STAR'' \<mapsto> VFloat (sqrt L * (5778 / T) ^ 2)))"
  using assms(7) calcTLR_R [OF assms, of "star_missingInput E d"]
  by (simp add: star_getitem_def getitem_absent missingInput_def dict_getitem_def)

lemma read_L_STAR:
  assumes "s ''T_STAR'' = Some tv" and "tv \<noteq> marker" and "py_float E tv = Inr T"
    and "s ''L_STAR'' = None"
    and "s ''R_STAR'' = Some rv" and "rv \<noteq> marker" and "py_float E rv = Inr R"
  shows "star_getitem E (Suc d) ''L_STAR'' s
         = (Inr (VFloat (R ^ 2 * (T / 5778) ^ 4)),
            s(''L_STAR'' \<mapsto> VFloat (R ^ 2 * (T / 5778) ^ 4)))"
  using assms(4) calcTLR_L [OF assms, of "star_missingInput E d"]
  by (simp add: star_getitem_def getitem_absent missingInput_def dict_getitem_def)

lemma TLR_roundtrip: "(sqrt 10000 * (5778 / 3000) ^ 2) ^ 2 * (3000 / 5778) ^ 4 = (10000::real)"
proof -
  have a: "(sqrt 10000) ^ 2 = (10000::real)" by simp
  have "((5778 / 3000) ^ 2) ^ 2 * (3000 / 5778) ^ 4 = ((5778 / 3000) * (3000 / 5778 :: real)) ^ 4"
    by (simp only: power_mult_distrib power_mult [symmetric]) simp
  then have b: "((5778 / 3000) ^ 2) ^ 2 * (3000 / 5778) ^ 4 = (1::real)"
    by simp
  have "(sqrt 10000 * (5778 / 3000) ^ 2) ^ 2 * (3000 / 5778) ^ 4
        = (sqrt 10000) ^ 2 * (((5778 / 3000) ^ 2) ^ 2 * (3000 / 5778) ^ 4 :: real)"
    by (simp only: power_mult_distrib mult.assoc)
  then show ?thesis
    by (simp only: a b mult_1_right)
qed

lemma holds_floatD:
  assumes "holds_float E s key x"
  obtains v where "s key = Some v" and "v \<noteq> marker" and "py_float E v = Inr x"
  using assms by (auto simp: holds_float_def split: option.splits)

text \<open>
  C3.  With the two other parameters present (not volatile, convertible by \<open>float\<close>),
  calcTLR stores exactly the missing one and changes nothing else:
  \<open>T_STAR = (L/R^2)^(1/4) * 5778\<close> (for \<open>R \<noteq> 0\<close>, \<open>L \<ge> 0\<close>),
  \<open>L_STAR = R^2 * (T/5778)^4\<close>, \<open>R_STAR = sqrt(L) * (5778/T)^2\<close> (for \<open>T \<noteq> 0\<close>,
  \<open>L \<ge> 0\<close>); with all three present it does nothing.  Reading \<open>R_STAR\<close> from a store
  that holds \<open>T_STAR = 3000\<close> and \<open>L_STAR = 10000\<close> returns, at any stack depth that
  allows one derivation, a float within relative tolerance \<open>1e-6\<close> of
  \<open>sqrt(10000) * (5778/3000)^2\<close>; reading \<open>L_STAR\<close> from a store that holds that radius
  and \<open>T_STAR = 3000\<close> returns a float within the same tolerance of \<open>10000\<close>.  Floats are
  reals here, so both are met exactly.
\<close>

theorem C3_calcTLR:
  "(\<not> has_key s ''T_STAR'' \<and> holds_float E s ''L_STAR'' l \<and> holds_float E s ''R_STAR'' r
      \<and> r \<noteq> 0 \<and> 0 \<le> l
      \<longrightarrow> calcTLR E (getitem mi) s
          = (Inr (), s(''T_STAR'' \<mapsto> VFloat (root 4 (l / r ^ 2) * 5778))))
   \<and> (holds_float E s ''T_STAR'' t \<and> \<not> has_key s ''L_STAR'' \<and> holds_float E s ''R_STAR'' r
      \<longrightarrow> calcTLR E (getitem mi) s
          = (Inr (), s(''L_STAR'' \<mapsto> VFloat (r ^ 2 * (t / 5778) ^ 4))))
   \<and> (holds_float E s ''T_STAR'' t \<and> holds_float E s ''L_STAR'' l \<and> \<not> has_key s ''R_STAR''
      \<and> t \<noteq> 0 \<and> 0 \<le> l
      \<longrightarrow> calcTLR E (getitem mi) s
          = (Inr (), s(''R_STAR'' \<mapsto> VFloat (sqrt l * (5778 / t) ^ 2))))
   \<and> (has_key s ''T_STAR'' \<and> has_key s ''L_STAR'' \<and> has_key s ''R_STAR''
      \<longrightarrow> calcTLR E get s = (Inr (), s))
   \<and> (holds_float E s ''T_STAR'' 3000 \<and> holds_float E s ''L_STAR'' 10000
      \<and> \<not> has_key s ''R_STAR''
      \<longrightarrow> (\<exists>x. star_getitem E (Suc d) ''R_STAR'' s
                  = (Inr (VFloat x), s(''R_STAR'' \<mapsto> VFloat x))
             \<and> \<bar>x - sqrt 10000 * (5778 / 3000) ^ 2\<bar>
                 \<le> 1 / 10 ^ 6 * \<bar>sqrt 10000 * (5778 / 3000) ^ 2\<bar>))
   \<and> (holds_float E s ''T_STAR'' 3000
      \<and> holds_float E s ''R_STAR'' (sqrt 10000 * (5778 / 3000) ^ 2)
      \<and> \<not> has_key s ''L_STAR''
      \<longrightarrow> (\<exists>y. star_getitem E (Suc d) ''L_STAR'' s
                  = (Inr (VFloat y), s(''L_STAR'' \<mapsto> VFloat y))
             \<and> \<bar>y - 10000\<bar> \<le> 1 / 10 ^ 6 * \<bar>10000\<bar>))"
proof (intro conjI impI)
  assume a: "\<not> has_key s ''T_STAR'' \<and> holds_float E s ''L_STAR'' l
    \<and> holds_float E s ''R_STAR'' r \<and> r \<noteq> 0 \<and> 0 \<le> l"
  then show "calcTLR E (getitem mi) s
      = (Inr (), s(''T_STAR'' \<mapsto> VFloat (root 4 (l / r ^ 2) * 5778)))"
    by (elim conjE holds_floatD) (simp add: has_key_def calcTLR_T)
next
  assume a: "holds_float E s ''T_STAR'' t \<and> \<not> has_key s ''L_STAR''
    \<and> holds_float E s ''R_STAR'' r"
  then show "calcTLR E (getitem mi) s
      = (Inr (), s(''L_STAR'' \<mapsto> VFloat (r ^ 2 * (t / 5778) ^ 4)))"
    by (elim conjE holds_floatD) (simp add: has_key_def calcTLR_L)
next
  assume a: "holds_float E s ''T_STAR'' t \<and> holds_float E s ''L_STAR'' l
    \<and> \<not> has_key s ''R_STAR'' \<and> t \<noteq> 0 \<and> 0 \<le> l"
  then show "calcTLR E (getitem mi) s
      = (Inr (), s(''R_STAR'' \<mapsto> VFloat (sqrt l * (5778 / t) ^ 2)))"
    by (elim conjE holds_floatD) (simp add: has_key_def calcTLR_R)
next
  assume "has_key s ''T_STAR'' \<and> has_key s ''L_STAR'' \<and> has_key s ''R_STAR''"
  then show "calcTLR E get s = (Inr (), s)"
    by (simp add: calcTLR_noop)
next
  assume a: "holds_float E s ''T_STAR'' 3000 \<and> holds_float E s ''L_STAR'' 10000
    \<and> \<not> has_key s ''R_STAR''"
  then have "star_getitem E (Suc d) ''R_STAR'' s
      = (Inr (VFloat (sqrt 10000 * (5778 / 3000) ^ 2)),
         s(''R_STAR'' \<mapsto> VFloat (sqrt 10000 * (5778 / 3000) ^ 2)))"
    by (elim conjE holds_floatD) (simp add: has_key_def read_R_STAR)
  then show "\<exists>x. star_getitem E (Suc d) ''R_STAR'' s
                  = (Inr (VFloat x), s(''R_STAR'' \<mapsto> VFloat x))
             \<and> \<bar>x - sqrt 10000 * (5778 / 3000) ^ 2\<bar>
                 \<le> 1 / 10 ^ 6 * \<bar>sqrt 10000 * (5778 / 3000) ^ 2\<bar>"
    by (intro exI [of _ "sqrt 10000 * (5778 / 3000) ^ 2"]) simp
next
  assume a: "holds_float E s ''T_STAR'' 3000
    \<and> holds_float E s ''R_STAR'' (sqrt 10000 * (5778 / 3000) ^ 2)
    \<and> \<not> has_key s ''L_STAR''"
  then have "star_getitem E (Suc d) ''L_STAR'' s
      = (Inr (VFloat ((sqrt 10000 * (5778 / 3000) ^ 2) ^ 2 * (3000 / 5778) ^ 4)),
         s(''L_STAR'' \<mapsto> VFloat ((sqrt 10000 * (5778 / 3000) ^ 2) ^ 2 * (3000 / 5778) ^ 4)))"
    by (elim conjE holds_floatD) (simp add: has_key_def read_L_STAR)
  then have "star_getitem E (Suc d) ''L_STAR'' s
      = (Inr (VFloat 10000), s(''L_STAR'' \<mapsto> VFloat 10000))"
    by (simp only: TLR_roundtrip)
  then show "\<exists>y. star_getitem E (Suc d) ''L_STAR'' s
                  = (Inr (VFloat y), s(''L_STAR'' \<mapsto> VFloat y))
             \<and> \<bar>y - 10000\<bar> \<le> 1 / 10 ^ 6 * \<bar>10000\<bar>"
    by (intro exI [of _ 10000]) simp
qed


theorem C3_calcTLR_witness:
  "(\<not> has_key [''L_STAR'' \<mapsto> VInt 10000, ''R_STAR'' \<mapsto> VInt 100] ''T_STAR'' \<and> holds_float no_io [''L_STAR'' \<mapsto> VInt 10000, ''R_STAR'' \<mapsto> VInt 100] ''L_STAR'' 10000
     \<and> holds_float no_io [''L_STAR'' \<mapsto> VInt 10000, ''R_STAR'' \<mapsto> VInt 100] ''R_STAR'' 100 \<and> (100::real) \<noteq> 0 \<and> (0::real) \<le> 10000
     \<and> calcTLR no_io (getitem (star_missingInput no_io 0)) [''L_STAR'' \<mapsto> VInt 10000, ''R_STAR'' \<mapsto> VInt 100]
         = (Inr (), [''L_STAR'' \<mapsto> VInt 10000, ''R_STAR'' \<mapsto> VInt 100](''T_STAR'' \<mapsto> VFloat (root 4 (10000 / 100 ^ 2) * 5778))))
   \<and> (holds_float no_io [''T_STAR'' \<mapsto> VInt 3000, ''R_STAR'' \<mapsto> VInt 2] ''T_STAR'' 3000 \<and> \<not> has_key [''T_STAR'' \<mapsto> VInt 3000, ''R_STAR'' \<mapsto> VInt 2] ''L_STAR''
     \<and> holds_float no_io [''T_STAR'' \<mapsto> VInt 3000, ''R_STAR'' \<mapsto> VInt 2] ''R_STAR'' 2
     \<and> calcTLR no_io (getitem (star_missingInput no_io 0)) [''T_STAR'' \<mapsto> VInt 3000, ''R_STAR'' \<mapsto> VInt 2]
         = (Inr (), [''T_STAR'' \<mapsto> VInt 3000, ''R_STAR'' \<mapsto> VInt 2](''L_STAR'' \<mapsto> VFloat (2 ^ 2 * (3000 / 5778) ^ 4))))
   \<and> (holds_float no_io [''T_STAR'' \<mapsto> VInt 3000, ''L_STAR'' \<mapsto> VInt 10000] ''T_STAR'' 3000 \<and> holds_float no_io [''T_STAR'' \<mapsto> VInt 3000, ''L_STAR'' \<mapsto> VInt 10000] ''L_STAR'' 10000
     \<and> \<not> has_key [''T_STAR'' \<mapsto> VInt 3000, ''L_STAR'' \<mapsto> VInt 10000] ''R_STAR'' \<and> (3000::real) \<noteq> 0 \<and> (0::real) \<le> 10000
     \<and> calcTLR no_io (getitem (star_missingInput no_io 0)) [''T_STAR'' \<mapsto> VInt 3000, ''L_STAR'' \<mapsto> VInt 10000]
         = (Inr (), [''T_STAR'' \<mapsto> VInt 3000, ''L_STAR'' \<mapsto> VInt 10000](''R_STAR'' \<mapsto> VFloat (sqrt 10000 * (5778 / 3000) ^ 2))))
   \<and> (has_key [''T_STAR'' \<mapsto> VInt 1, ''L_STAR'' \<mapsto> VInt 1, ''R_STAR'' \<mapsto> VInt 1] ''T_STAR'' \<and> has_key [''T_STAR'' \<mapsto> VInt 1, ''L_STAR'' \<mapsto> VInt 1, ''R_STAR'' \<mapsto> VInt 1] ''L_STAR'' \<and> has_key [''T_STAR'' \<mapsto> VInt 1, ''L_STAR'' \<mapsto> VInt 1, ''R_STAR'' \<mapsto> VInt 1] ''R_STAR''
     \<and> calcTLR no_io (getitem (star_missingInput no_io 0)) [''T_STAR'' \<mapsto> VInt 1, ''L_STAR'' \<mapsto> VInt 1, ''R_STAR'' \<mapsto> VInt 1] = (Inr (), [''T_STAR'' \<mapsto> VInt 1, ''L_STAR'' \<mapsto> VInt 1, ''R_STAR'' \<mapsto> VInt 1]))
   \<and> (holds_float no_io [''T_STAR'' \<mapsto> VInt 3000, ''L_STAR'' \<mapsto> VInt 10000] ''T_STAR'' 3000 \<and> holds_float no_io [''T_STAR'' \<mapsto> VInt 3000, ''L_STAR'' \<mapsto> VInt 10000] ''L_STAR'' 10000
     \<and> \<not> has_key [''T_STAR'' \<mapsto> VInt 3000, ''L_STAR'' \<mapsto> VInt 10000] ''R_STAR''
     \<and> (\<exists>x. star_getitem no_io (Suc 0) ''R_STAR'' [''T_STAR'' \<mapsto> VInt 3000, ''L_STAR'' \<mapsto> VInt 10000]
              = (Inr (VFloat x), [''T_STAR'' \<mapsto> VInt 3000, ''L_STAR'' \<mapsto> VInt 10000](''R_STAR'' \<mapsto> VFloat x))
          \<and> \<bar>x - sqrt 10000 * (5778 / 3000) ^ 2\<bar>
              \<le> 1 / 10 ^ 6 * \<bar>sqrt 10000 * (5778 / 3000) ^ 2\<bar>))
   \<and> (holds_float no_io [''T_STAR'' \<mapsto> VInt 3000, ''R_STAR'' \<mapsto> VFloat (sqrt 10000 * (5778 / 3000) ^ 2)] ''T_STAR'' 3000
     \<and> holds_float no_io [''T_STAR'' \<mapsto> VInt 3000, ''R_STAR'' \<mapsto> VFloat (sqrt 10000 * (5778 / 3000) ^ 2)] ''R_STAR'' (sqrt 10000 * (5778 / 3000) ^ 2)
     \<and> \<not> has_key [''T_STAR'' \<mapsto> VInt 3000, ''R_STAR'' \<mapsto> VFloat (sqrt 10000 * (5778 / 3000) ^ 2)] ''L_STAR''
     \<and> (\<exists>y. star_getitem no_io (Suc 0) ''L_STAR'' [''T_STAR'' \<mapsto> VInt 3000, ''R_STAR'' \<mapsto> VFloat (sqrt 10000 * (5778 / 3000) ^ 2)]
              = (Inr (VFloat y), [''T_STAR'' \<mapsto> VInt 3000, ''R_STAR'' \<mapsto> VFloat (sqrt 10000 * (5778 / 3000) ^ 2)](''L_STAR'' \<mapsto> VFloat y))
          \<and> \<bar>y - 10000\<bar> \<le> 1 / 10 ^ 6 * \<bar>10000\<bar>))"
proof -
  have wT: "\<not> has_key [''L_STAR'' \<mapsto> VInt 10000, ''R_STAR'' \<mapsto> VInt 100] ''T_STAR'' \<and> holds_float no_io [''L_STAR'' \<mapsto> VInt 10000, ''R_STAR'' \<mapsto> VInt 100] ''L_STAR'' 10000
     \<and> holds_float no_io [''L_STAR'' \<mapsto> VInt 10000, ''R_STAR'' \<mapsto> VInt 100] ''R_STAR'' 100 \<and> (100::real) \<noteq> 0 \<and> (0::real) \<le> 10000
     \<and> calcTLR no_io (getitem (star_missingInput no_io 0)) [''L_STAR'' \<mapsto> VInt 10000, ''R_STAR'' \<mapsto> VInt 100]
         = (Inr (), [''L_STAR'' \<mapsto> VInt 10000, ''R_STAR'' \<mapsto> VInt 100](''T_STAR'' \<mapsto> VFloat (root 4 (10000 / 100 ^ 2) * 5778)))"
    using C3_calcTLR [where E = no_io and s = "[''L_STAR'' \<mapsto> VInt 10000, ''R_STAR'' \<mapsto> VInt 100]" and mi = "star_missingInput no_io 0"
        and get = "getitem (star_missingInput no_io 0)" and d = 0 and l = 10000 and r = 100 and t = 1]
    by (simp add: has_key_def holds_float_def py_float_def marker_def)
  have wL: "holds_float no_io [''T_STAR'' \<mapsto> VInt 3000, ''R_STAR'' \<mapsto> VInt 2] ''T_STAR'' 3000 \<and> \<not> has_key [''T_STAR'' \<mapsto> VInt 3000, ''R_STAR'' \<mapsto> VInt 2] ''L_STAR''
     \<and> holds_float no_io [''T_STAR'' \<mapsto> VInt 3000, ''R_STAR'' \<mapsto> VInt 2] ''R_STAR'' 2
     \<and> calcTLR no_io (getitem (star_missingInput no_io 0)) [''T_STAR'' \<mapsto> VInt 3000, ''R_STAR'' \<mapsto> VInt 2]
         = (Inr (), [''T_STAR'' \<mapsto> VInt 3000, ''R_STAR'' \<mapsto> VInt 2](''L_STAR'' \<mapsto> VFloat (2 ^ 2 * (3000 / 5778) ^ 4)))"
    using C3_calcTLR [where E = no_io and s = "[''T_STAR'' \<mapsto> VInt 3000, ''R_STAR'' \<mapsto> VInt 2]" and mi = "star_missingInput no_io 0"
        and get = "getitem (star_missingInput no_io 0)" and d = 0 and l = 1 and r = 2 and t = 3000]
    by (simp add: has_key_def holds_float_def py_float_def marker_def)
  have wR: "holds_float no_io [''T_STAR'' \<mapsto> VInt 3000, ''L_STAR'' \<mapsto> VInt 10000] ''T_STAR'' 3000 \<and> holds_float no_io [''T_STAR'' \<mapsto> VInt 3000, ''L_STAR'' \<mapsto> VInt 10000] ''L_STAR'' 10000
     \<and> \<not> has_key [''T_STAR'' \<mapsto> VInt 3000, ''L_STAR'' \<mapsto> VInt 10000] ''R_STAR'' \<and> (3000::real) \<noteq> 0 \<and> (0::real) \<le> 10000
     \<and> calcTLR no_io (getitem (star_missingInput no_io 0)) [''T_STAR'' \<mapsto> VInt 3000, ''L_STAR'' \<mapsto> VInt 10000]
         = (Inr (), [''T_STAR'' \<mapsto> VInt 3000, ''L_STAR'' \<mapsto> VInt 10000](''R_STAR'' \<mapsto> VFloat (sqrt 10000 * (5778 / 3000) ^ 2)))"
    using C3_calcTLR [where E = no_io and s = "[''T_STAR'' \<mapsto> VInt 3000, ''L_STAR'' \<mapsto> VInt 10000]" and mi = "star_missingInput no_io 0"
        and get = "getitem (star_missingInput no_io 0)" and d = 0 and l = 10000 and r = 1 and t = 3000]
    by (simp add: has_key_def holds_float_def py_float_def marker_def)
  have wN: "has_key [''T_STAR'' \<mapsto> VInt 1, ''L_STAR'' \<mapsto> VInt 1, ''R_STAR'' \<mapsto> VInt 1] ''T_STAR'' \<and> has_key [''T_STAR'' \<mapsto> VInt 1, ''L_STAR'' \<mapsto> VInt 1, ''R_STAR'' \<mapsto> VInt 1] ''L_STAR'' \<and> has_key [''T_STAR'' \<mapsto> VInt 1, ''L_STAR'' \<mapsto> VInt 1, ''R_STAR'' \<mapsto> VInt 1] ''R_STAR''
     \<and> calcTLR no_io (getitem (star_missingInput no_io 0)) [''T_STAR'' \<mapsto> VInt 1, ''L_STAR'' \<mapsto> VInt 1, ''R_STAR'' \<mapsto> VInt 1] = (Inr (), [''T_STAR'' \<mapsto> VInt 1, ''L_STAR'' \<mapsto> VInt 1, ''R_STAR'' \<mapsto> VInt 1])"
    using C3_calcTLR [where E = no_io and s = "[''T_STAR'' \<mapsto> VInt 1, ''L_STAR'' \<mapsto> VInt 1, ''R_STAR'' \<mapsto> VInt 1]" and mi = "star_missingInput no_io 0"
        and get = "getitem (star_missingInput no_io 0)" and d = 0 and l = 1 and r = 1 and t = 1]
    by (simp add: has_key_def holds_float_def py_float_def marker_def)
  have wA: "holds_float no_io [''T_STAR'' \<mapsto> VInt 3000, ''L_STAR'' \<mapsto> VInt 10000] ''T_STAR'' 3000 \<and> holds_float no_io [''T_STAR'' \<mapsto> VInt 3000, ''L_STAR'' \<mapsto> VInt 10000] ''L_STAR'' 10000
     \<and> \<not> has_key [''T_STAR'' \<mapsto> VInt 3000, ''L_STAR'' \<mapsto> VInt 10000] ''R_STAR''
     \<and> (\<exists>x. star_getitem no_io (Suc 0) ''R_STAR'' [''T_STAR'' \<mapsto> VInt 3000, ''L_STAR'' \<mapsto> VInt 10000]
              = (Inr (VFloat x), [''T_STAR'' \<mapsto> VInt 3000, ''L_STAR'' \<mapsto> VInt 10000](''R_STAR'' \<mapsto> VFloat x))
          \<and> \<bar>x - sqrt 10000 * (5778 / 3000) ^ 2\<bar>
              \<le> 1 / 10 ^ 6 * \<bar>sqrt 10000 * (5778 / 3000) ^ 2\<bar>)"
    using C3_calcTLR [where E = no_io and s = "[''T_STAR'' \<mapsto> VInt 3000, ''L_STAR'' \<mapsto> VInt 10000]" and mi = "star_missingInput no_io 0"
        and get = "getitem (star_missingInput no_io 0)" and d = 0 and l = 1 and r = 1 and t = 1]
    by (simp add: has_key_def holds_float_def py_float_def marker_def)
  have wB: "holds_float no_io [''T_STAR'' \<mapsto> VInt 3000, ''R_STAR'' \<mapsto> VFloat (sqrt 10000 * (5778 / 3000) ^ 2)] ''T_STAR'' 3000
     \<and> holds_float no_io [''T_STAR'' \<mapsto> VInt 3000, ''R_STAR'' \<mapsto> VFloat (sqrt 10000 * (5778 / 3000) ^ 2)] ''R_STAR'' (sqrt 10000 * (5778 / 3000) ^ 2)
     \<and> \<not> has_key [''T_STAR'' \<mapsto> VInt 3000, ''R_STAR'' \<mapsto> VFloat (sqrt 10000 * (5778 / 3000) ^ 2)] ''L_STAR''
     \<and> (\<exists>y. star_getitem no_io (Suc 0) ''L_STAR'' [''T_STAR'' \<mapsto> VInt 3000, ''R_STAR'' \<mapsto> VFloat (sqrt 10000 * (5778 / 3000) ^ 2)]
              = (Inr (VFloat y), [''T_STAR'' \<mapsto> VInt 3000, ''R_STAR'' \<mapsto> VFloat (sqrt 10000 * (5778 / 3000) ^ 2)](''L_STAR'' \<mapsto> VFloat y))
          \<and> \<bar>y - 10000\<bar> \<le> 1 / 10 ^ 6 * \<bar>10000\<bar>)"
    using C3_calcTLR [where E = no_io and s = "[''T_STAR'' \<mapsto> VInt 3000, ''R_STAR'' \<mapsto> VFloat (sqrt 10000 * (5778 / 3000) ^ 2)]" and mi = "star_missingInput no_io 0"
        and get = "getitem (star_missingInput no_io 0)" and d = 0 and l = 1 and r = 1 and t = 1]
    by (simp add: has_key_def holds_float_def py_float_def marker_def)
  show ?thesis
    using wT wL wR wN wA wB by blast
qed

section \<open>Properties of transitions\<close>

lemmas show_defs =
  str_trans_def co_2_1_def co_def fmt_i_def fmt_2f_def show_nat.simps digit_def
  round_half_even_def

lemma str_co_2_1:
  "str_trans co_2_1 = ''TRANSITION=12C16O 0 2 0 0 0 1 0 0 APEX 0.00''"
  by (simp add: show_defs)

lemma str_co_3_2:
  "str_trans (co_2_1\<lparr>jup := 3, jlow := 2\<rparr>) = ''TRANSITION=12C16O 0 3 0 0 0 2 0 0 APEX 0.00''"
  by (simp add: show_defs)

lemma str_trans_descriptor:
  assumes "canonical_descriptor t1 = canonical_descriptor t2"
  shows "str_trans t1 = str_trans t2"
  using assms by (simp add: canonical_descriptor_def str_trans_def)

subsection \<open>C8: what equality and hash depend on\<close>

text \<open>
  C8, as stated, at two transitions that agree on the canonical descriptor (and on every
  other attribute) except for \<open>n_quad\<close>, 100 against 50: \<open>__eq__\<close> returns False.
\<close>

theorem C8_equal_descriptor_counterexample:
  "canonical_descriptor co_2_1 = canonical_descriptor (co_2_1\<lparr>n_quad := 50\<rparr>)
   \<and> trans_eq co_2_1 (co_2_1\<lparr>n_quad := 50\<rparr>) = False"
  by (simp add: canonical_descriptor_def trans_eq_def makeDict_def co_2_1_def)

text \<open>
  C8, amended: equality and hash depend on the canonical descriptor together with
  \<open>n_quad\<close> and \<open>use_maser_in_sphinx\<close>, the three entries of \<open>makeDict\<close>, and on
  nothing else.  Two transitions that agree on these are equal and have the same hash,
  whatever their data files, model ids, best velocity or cached profiles; and \<open>__eq__\<close> is
  exactly the agreement of the printed transition (without its \<open>TRANSITION=\<close>), of
  \<open>n_quad\<close> and of \<open>use_maser_in_sphinx\<close>.
\<close>

theorem C8_identity:
  "(canonical_descriptor t1 = canonical_descriptor t2 \<and> n_quad t1 = n_quad t2
      \<and> use_maser_in_sphinx t1 = use_maser_in_sphinx t2
      \<longrightarrow> trans_eq t1 t2 \<and> trans_hash H t1 = trans_hash H t2)
   \<and> trans_eq t1 t2 =
       (py_replace ''TRANSITION='' [] (str_trans t1) = py_replace ''TRANSITION='' [] (str_trans t2)
        \<and> n_quad t1 = n_quad t2 \<and> use_maser_in_sphinx t1 = use_maser_in_sphinx t2)"
proof (intro conjI impI)
  assume a: "canonical_descriptor t1 = canonical_descriptor t2 \<and> n_quad t1 = n_quad t2
      \<and> use_maser_in_sphinx t1 = use_maser_in_sphinx t2"
  then have "str_trans t1 = str_trans t2"
    by (intro str_trans_descriptor) simp
  then have d: "makeDict 0 t1 = makeDict 0 t2"
    using a by (simp add: makeDict_def)
  show "trans_eq t1 t2"
    using d by (simp add: trans_eq_def)
  show "trans_hash H t1 = trans_hash H t2"
    using d by (simp add: trans_hash_def)
next
  show "trans_eq t1 t2 =
       (py_replace ''TRANSITION='' [] (str_trans t1) = py_replace ''TRANSITION='' [] (str_trans t2)
        \<and> n_quad t1 = n_quad t2 \<and> use_maser_in_sphinx t1 = use_maser_in_sphinx t2)"
    by (simp add: trans_eq_def makeDict_def)
qed

theorem C8_identity_witness:
  "canonical_descriptor
       (co_2_1\<lparr>model_id := Some ''model_1'', datafiles := Some [''a.dat''], best_vlsr := Some 3\<rparr>)
     = canonical_descriptor (co_2_1\<lparr>datafiles := Some [''b.dat'']\<rparr>)
   \<and> n_quad (co_2_1\<lparr>model_id := Some ''model_1'', datafiles := Some [''a.dat''],
         best_vlsr := Some 3\<rparr>)
     = n_quad (co_2_1\<lparr>datafiles := Some [''b.dat'']\<rparr>)
   \<and> use_maser_in_sphinx (co_2_1\<lparr>model_id := Some ''model_1'', datafiles := Some [''a.dat''],
         best_vlsr := Some 3\<rparr>)
     = use_maser_in_sphinx (co_2_1\<lparr>datafiles := Some [''b.dat'']\<rparr>)
   \<and> trans_eq (co_2_1\<lparr>model_id := Some ''model_1'', datafiles := Some [''a.dat''],
         best_vlsr := Some 3\<rparr>) (co_2_1\<lparr>datafiles := Some [''b.dat'']\<rparr>)
   \<and> trans_hash (\<lambda>d. int (length d))
        (co_2_1\<lparr>model_id := Some ''model_1'', datafiles := Some [''a.dat''], best_vlsr := Some 3\<rparr>)
     = trans_hash (\<lambda>d. int (length d)) (co_2_1\<lparr>datafiles := Some [''b.dat'']\<rparr>)"
  using C8_identity [where
      ?t1.0 = "co_2_1\<lparr>model_id := Some ''model_1'', datafiles := Some [''a.dat''],
                 best_vlsr := Some 3\<rparr>"
      and ?t2.0 = "co_2_1\<lparr>datafiles := Some [''b.dat'']\<rparr>"
      and H = "\<lambda>d. int (length d)"]
  by (simp add: canonical_descriptor_def)

subsection \<open>C5: the closing check of calcGAS_LINES\<close>

text \<open>
  C5.  The check raises IOError exactly when the number of transitions differs from the
  number of distinct transition strings, and returns normally exactly when the two numbers
  agree; when the strings are pairwise distinct it returns normally and the stored
  collection is the given one sorted by transition string.
\<close>

theorem C5_check_GAS_LINES:
  "(fst (check_GAS_LINES gas_lines) = Inl IOError
      \<longleftrightarrow> length gas_lines \<noteq> card (set (map str_trans gas_lines)))
   \<and> (fst (check_GAS_LINES gas_lines) = Inr ()
      \<longleftrightarrow> length gas_lines = card (set (map str_trans gas_lines)))
   \<and> (distinct (map str_trans gas_lines) \<longrightarrow>
        fst (check_GAS_LINES gas_lines) = Inr ()
        \<and> sorted (map str_trans (snd (check_GAS_LINES gas_lines)))
        \<and> mset (snd (check_GAS_LINES gas_lines)) = mset gas_lines)"
proof -
  have img: "set (map str_trans (sort_key str_trans gas_lines)) = set (map str_trans gas_lines)"
    by simp
  have a: "fst (check_GAS_LINES gas_lines) = Inl IOError
      \<longleftrightarrow> length gas_lines \<noteq> card (set (map str_trans gas_lines))"
    unfolding check_GAS_LINES_def Let_def img by simp
  have b: "fst (check_GAS_LINES gas_lines) = Inr ()
      \<longleftrightarrow> length gas_lines = card (set (map str_trans gas_lines))"
    unfolding check_GAS_LINES_def Let_def img by simp
  have c: "snd (check_GAS_LINES gas_lines) = sort_key str_trans gas_lines"
    unfolding check_GAS_LINES_def Let_def by simp
  have d: "distinct (map str_trans gas_lines) \<Longrightarrow>
      length gas_lines = card (set (map str_trans gas_lines))"
    using distinct_card [of "map str_trans gas_lines"] by simp
  show ?thesis
    using a b c d by simp
qed

theorem C5_check_GAS_LINES_witness:
  "distinct (map str_trans [co_2_1\<lparr>jup := 3, jlow := 2\<rparr>, co_2_1])
   \<and> check_GAS_LINES [co_2_1\<lparr>jup := 3, jlow := 2\<rparr>, co_2_1]
       = (Inr (), [co_2_1, co_2_1\<lparr>jup := 3, jlow := 2\<rparr>])
   \<and> sorted (map str_trans (snd (check_GAS_LINES [co_2_1\<lparr>jup := 3, jlow := 2\<rparr>, co_2_1])))
   \<and> fst (check_GAS_LINES [co_2_1, co_2_1\<lparr>n_quad := 50\<rparr>]) = Inl IOError"
proof -
  have same: "str_trans (co_2_1\<lparr>n_quad := 50\<rparr>) = str_trans co_2_1"
    by (simp add: str_trans_def)
  have h: "distinct (map str_trans [co_2_1\<lparr>jup := 3, jlow := 2\<rparr>, co_2_1])"
    by (simp add: str_co_2_1 str_co_3_2)
  have v: "check_GAS_LINES [co_2_1\<lparr>jup := 3, jlow := 2\<rparr>, co_2_1]
       = (Inr (), [co_2_1, co_2_1\<lparr>jup := 3, jlow := 2\<rparr>])"
    by (simp add: check_GAS_LINES_def str_co_2_1 str_co_3_2 less_eq_char_def less_char_def)
  have s: "sorted (map str_trans (snd (check_GAS_LINES [co_2_1\<lparr>jup := 3, jlow := 2\<rparr>, co_2_1])))"
    using h C5_check_GAS_LINES [of "[co_2_1\<lparr>jup := 3, jlow := 2\<rparr>, co_2_1]"] by blast
  have n: "length [co_2_1, co_2_1\<lparr>n_quad := 50\<rparr>]
             \<noteq> card (set (map str_trans [co_2_1, co_2_1\<lparr>n_quad := 50\<rparr>]))"
    by (simp add: same)
  have e: "fst (check_GAS_LINES [co_2_1, co_2_1\<lparr>n_quad := 50\<rparr>]) = Inl IOError"
    using n C5_check_GAS_LINES [of "[co_2_1, co_2_1\<lparr>n_quad := 50\<rparr>]"] by blast
  show ?thesis
    using h v s e by blast
qed

subsection \<open>C4: checkUniqueness\<close>

lemma set_first_seen: "set (first_seen xs) = set xs"
  by (induction xs rule: first_seen.induct) auto

lemma distinct_first_seen: "distinct (first_seen xs)"
  by (induction xs rule: first_seen.induct) (auto simp: set_first_seen)

lemma first_seen_filter_notin:
  "first_seen (filter (\<lambda>x. x \<notin> A) (y # ys)) =
     (if y \<in> A then first_seen (filter (\<lambda>x. x \<notin> A) ys)
      else y # first_seen (filter (\<lambda>x. x \<notin> insert y A) ys))"
proof -
  have "removeAll y (filter (\<lambda>x. x \<notin> A) ys) = filter (\<lambda>x. x \<notin> insert y A) ys"
    by (induction ys) auto
  then show ?thesis by simp
qed

lemma removeAll_filter_notin:
  "removeAll y (filter (\<lambda>x. x \<notin> A) ys) = filter (\<lambda>x. x \<noteq> y \<and> x \<notin> A) ys"
  by (induction ys) auto

lemma datafiles_update_id:
  "datafiles t = Some fs \<Longrightarrow> t\<lparr>datafiles := Some fs\<rparr> = t"
  by (cases t) simp

lemma ident_datafiles [simp]: "ident (t\<lparr>datafiles := d\<rparr>) = ident t"
  by (simp add: makeDict_def str_trans_def)

lemma trans_eq_ident: "trans_eq m t \<longleftrightarrow> ident m = ident t"
  by (simp add: trans_eq_def)

lemma list_ex_ident: "list_ex (\<lambda>m. trans_eq m t) merged \<longleftrightarrow> ident t \<in> set (map ident merged)"
proof -
  have "list_ex (\<lambda>m. trans_eq m t) merged \<longleftrightarrow> (\<exists>m \<in> set merged. ident t = ident m)"
    by (simp add: list_ex_iff trans_eq_ident eq_commute)
  then show ?thesis
    by (simp add: image_iff)
qed

lemma first_index_found:
  "\<exists>x \<in> set xs. P x \<Longrightarrow> first_index P xs < length xs \<and> P (xs ! first_index P xs)"
  by (induction xs) auto

lemma addDatafile_Files:
  "datafiles m = Some a \<Longrightarrow> datafiles t = Some b \<Longrightarrow>
     addDatafile m (datafiles_arg t) = Inr (m\<lparr>datafiles := Some (a @ b)\<rparr>)"
  by (simp add: addDatafile_def datafiles_arg_def)

lemma files_of_Some: "datafiles t = Some fs \<Longrightarrow> files_of t = fs"
  by (simp add: files_of_def)


lemma loop_invariant:
  assumes "distinct (map ident merged)"
    and "\<forall>t \<in> set merged. datafiles t \<noteq> None"
    and "\<forall>t \<in> set rest. datafiles t \<noteq> None"
  shows "\<exists>R. checkUniqueness_loop merged rest = Inr R
    \<and> map ident R
        = map ident merged @ first_seen (filter (\<lambda>x. x \<notin> set (map ident merged)) (map ident rest))
    \<and> (\<forall>j < length merged. R ! j =
          (merged ! j)\<lparr>datafiles := Some (files_of (merged ! j)
             @ concat (map files_of (filter (\<lambda>t. ident t = ident (merged ! j)) rest)))\<rparr>)
    \<and> (\<forall>j. length merged \<le> j \<and> j < length R \<longrightarrow>
          ident (R ! j) \<notin> set (map ident merged)
          \<and> (\<exists>f. find (\<lambda>t. ident t = ident (R ! j)) rest = Some f
                \<and> R ! j = f\<lparr>datafiles := Some (concat (map files_of
                      (filter (\<lambda>t. ident t = ident f) rest)))\<rparr>))"
  using assms
proof (induction rest arbitrary: merged)
  case Nil
  have "\<forall>j < length merged. merged ! j = (merged ! j)\<lparr>datafiles := Some (files_of (merged ! j))\<rparr>"
  proof (intro allI impI)
    fix j assume "j < length merged"
    then obtain fs where "datafiles (merged ! j) = Some fs"
      using Nil.prems(2) by (metis not_None_eq nth_mem)
    then show "merged ! j = (merged ! j)\<lparr>datafiles := Some (files_of (merged ! j))\<rparr>"
      by (simp add: files_of_Some datafiles_update_id)
  qed
  then show ?case by simp
next
  case (Cons tr rest)
  obtain ftr where ftr: "datafiles tr = Some ftr"
    using Cons.prems(3) by auto
  have rest_files: "\<forall>t \<in> set rest. datafiles t \<noteq> None"
    using Cons.prems(3) by simp
  show ?case
  proof (cases "ident tr \<in> set (map ident merged)")
    case False
    have step: "checkUniqueness_loop merged (tr # rest) = checkUniqueness_loop (merged @ [tr]) rest"
      using False by (simp add: list_ex_ident)
    have d: "distinct (map ident (merged @ [tr]))"
      using False Cons.prems(1) by simp
    have f: "\<forall>t \<in> set (merged @ [tr]). datafiles t \<noteq> None"
      using Cons.prems(2) ftr by simp
    obtain R where R: "checkUniqueness_loop (merged @ [tr]) rest = Inr R"
      and Ra: "map ident R = map ident (merged @ [tr])
          @ first_seen (filter (\<lambda>x. x \<notin> set (map ident (merged @ [tr]))) (map ident rest))"
      and Rb: "\<forall>j < length (merged @ [tr]). R ! j =
          ((merged @ [tr]) ! j)\<lparr>datafiles := Some (files_of ((merged @ [tr]) ! j)
             @ concat (map files_of (filter (\<lambda>t. ident t = ident ((merged @ [tr]) ! j)) rest)))\<rparr>"
      and Rc: "\<forall>j. length (merged @ [tr]) \<le> j \<and> j < length R \<longrightarrow>
          ident (R ! j) \<notin> set (map ident (merged @ [tr]))
          \<and> (\<exists>f. find (\<lambda>t. ident t = ident (R ! j)) rest = Some f
                \<and> R ! j = f\<lparr>datafiles := Some (concat (map files_of
                      (filter (\<lambda>t. ident t = ident f) rest)))\<rparr>)"
      using Cons.IH [OF d f rest_files] by blast
    have a: "map ident R = map ident merged
        @ first_seen (filter (\<lambda>x. x \<notin> set (map ident merged)) (map ident (tr # rest)))"
      using Ra False by (simp add: removeAll_filter_notin)
    have b: "\<forall>j < length merged. R ! j =
          (merged ! j)\<lparr>datafiles := Some (files_of (merged ! j)
             @ concat (map files_of (filter (\<lambda>t. ident t = ident (merged ! j)) (tr # rest))))\<rparr>"
    proof (intro allI impI)
      fix j assume j: "j < length merged"
      then have "ident (merged ! j) \<in> set (map ident merged)"
        by simp
      then have ne: "ident tr \<noteq> ident (merged ! j)"
        using False by metis
      have "R ! j = ((merged @ [tr]) ! j)\<lparr>datafiles := Some (files_of ((merged @ [tr]) ! j)
             @ concat (map files_of (filter (\<lambda>t. ident t = ident ((merged @ [tr]) ! j)) rest)))\<rparr>"
        using Rb j by simp
      then show "R ! j = (merged ! j)\<lparr>datafiles := Some (files_of (merged ! j)
             @ concat (map files_of (filter (\<lambda>t. ident t = ident (merged ! j)) (tr # rest))))\<rparr>"
        using j ne by (simp add: nth_append)
    qed
    have c: "\<forall>j. length merged \<le> j \<and> j < length R \<longrightarrow>
          ident (R ! j) \<notin> set (map ident merged)
          \<and> (\<exists>f. find (\<lambda>t. ident t = ident (R ! j)) (tr # rest) = Some f
                \<and> R ! j = f\<lparr>datafiles := Some (concat (map files_of
                      (filter (\<lambda>t. ident t = ident f) (tr # rest))))\<rparr>)"
    proof (intro allI impI)
      fix j assume j: "length merged \<le> j \<and> j < length R"
      show "ident (R ! j) \<notin> set (map ident merged)
          \<and> (\<exists>f. find (\<lambda>t. ident t = ident (R ! j)) (tr # rest) = Some f
                \<and> R ! j = f\<lparr>datafiles := Some (concat (map files_of
                      (filter (\<lambda>t. ident t = ident f) (tr # rest))))\<rparr>)"
      proof (cases "j = length merged")
        case True
        have "R ! j = tr\<lparr>datafiles := Some (files_of tr
             @ concat (map files_of (filter (\<lambda>t. ident t = ident tr) rest)))\<rparr>"
          using Rb True by simp
        then show ?thesis
          using False by simp
      next
        case False
        then have j': "length (merged @ [tr]) \<le> j \<and> j < length R"
          using j by simp
        then obtain f where notin: "ident (R ! j) \<notin> set (map ident (merged @ [tr]))"
          and fnd: "find (\<lambda>t. ident t = ident (R ! j)) rest = Some f"
          and Rj: "R ! j = f\<lparr>datafiles := Some (concat (map files_of
                      (filter (\<lambda>t. ident t = ident f) rest)))\<rparr>"
          using Rc by blast
        have ne: "ident tr \<noteq> ident (R ! j)"
          using notin by auto
        have "ident f = ident (R ! j)"
          using fnd by (auto simp: find_Some_iff)
        then have ne2: "ident tr \<noteq> ident f"
          using ne by simp
        show ?thesis
          using notin fnd Rj ne ne2 by simp
      qed
    qed
    show ?thesis
      using step R a b c by simp
  next
    case True
    define i where "i = first_index (\<lambda>m. trans_eq m tr) merged"
    have "\<exists>m \<in> set merged. trans_eq m tr"
      using True by (auto simp: trans_eq_ident)
    then have i: "i < length merged" and eqi: "trans_eq (merged ! i) tr"
      using first_index_found [of merged "\<lambda>m. trans_eq m tr"] by (simp_all add: i_def)
    have ki: "ident (merged ! i) = ident tr"
      using eqi by (simp add: trans_eq_ident)
    obtain fi where fi: "datafiles (merged ! i) = Some fi"
      using Cons.prems(2) i by (metis not_None_eq nth_mem)
    define m' where "m' = (merged ! i)\<lparr>datafiles := Some (fi @ ftr)\<rparr>"
    have add: "addDatafile (merged ! i) (datafiles_arg tr) = Inr m'"
      using fi ftr by (simp add: addDatafile_Files m'_def)
    have step: "checkUniqueness_loop merged (tr # rest)
        = checkUniqueness_loop (merged[i := m']) rest"
      using True add by (simp add: list_ex_ident i_def)
    have keys: "map ident (merged[i := m']) = map ident merged"
      using i by (simp add: map_update m'_def list_update_same_conv)
    have d: "distinct (map ident (merged[i := m']))"
      using keys Cons.prems(1) by simp
    have f: "\<forall>t \<in> set (merged[i := m']). datafiles t \<noteq> None"
    proof
      fix t assume "t \<in> set (merged[i := m'])"
      then have "t = m' \<or> t \<in> set merged"
        using set_update_subset_insert [of merged i m'] by auto
      then show "datafiles t \<noteq> None"
        using Cons.prems(2) by (auto simp: m'_def)
    qed
    obtain R where R: "checkUniqueness_loop (merged[i := m']) rest = Inr R"
      and Ra: "map ident R = map ident (merged[i := m'])
          @ first_seen (filter (\<lambda>x. x \<notin> set (map ident (merged[i := m']))) (map ident rest))"
      and Rb: "\<forall>j < length (merged[i := m']). R ! j =
          ((merged[i := m']) ! j)\<lparr>datafiles := Some (files_of ((merged[i := m']) ! j)
             @ concat (map files_of (filter (\<lambda>t. ident t = ident ((merged[i := m']) ! j)) rest)))\<rparr>"
      and Rc: "\<forall>j. length (merged[i := m']) \<le> j \<and> j < length R \<longrightarrow>
          ident (R ! j) \<notin> set (map ident (merged[i := m']))
          \<and> (\<exists>f. find (\<lambda>t. ident t = ident (R ! j)) rest = Some f
                \<and> R ! j = f\<lparr>datafiles := Some (concat (map files_of
                      (filter (\<lambda>t. ident t = ident f) rest)))\<rparr>)"
      using Cons.IH [OF d f rest_files] by blast
    have a: "map ident R = map ident merged
        @ first_seen (filter (\<lambda>x. x \<notin> set (map ident merged)) (map ident (tr # rest)))"
      using Ra True unfolding keys by (simp add: removeAll_filter_notin)
    have b: "\<forall>j < length merged. R ! j =
          (merged ! j)\<lparr>datafiles := Some (files_of (merged ! j)
             @ concat (map files_of (filter (\<lambda>t. ident t = ident (merged ! j)) (tr # rest))))\<rparr>"
    proof (intro allI impI)
      fix j assume j: "j < length merged"
      have Rj: "R ! j = ((merged[i := m']) ! j)\<lparr>datafiles := Some (files_of ((merged[i := m']) ! j)
             @ concat (map files_of (filter (\<lambda>t. ident t = ident ((merged[i := m']) ! j)) rest)))\<rparr>"
        using Rb j by simp
      show "R ! j = (merged ! j)\<lparr>datafiles := Some (files_of (merged ! j)
             @ concat (map files_of (filter (\<lambda>t. ident t = ident (merged ! j)) (tr # rest))))\<rparr>"
      proof (cases "j = i")
        case True
        have "files_of m' = fi @ ftr"
          by (simp add: m'_def files_of_def)
        then show ?thesis
          using Rj True i ki fi ftr by (simp add: m'_def files_of_Some)
      next
        case False
        have "ident (merged ! j) \<noteq> ident (merged ! i)"
          using False i j Cons.prems(1) by (metis distinct_conv_nth length_map nth_map)
        then have "ident tr \<noteq> ident (merged ! j)"
          using ki by simp
        then show ?thesis
          using Rj False by simp
      qed
    qed
    have c: "\<forall>j. length merged \<le> j \<and> j < length R \<longrightarrow>
          ident (R ! j) \<notin> set (map ident merged)
          \<and> (\<exists>f. find (\<lambda>t. ident t = ident (R ! j)) (tr # rest) = Some f
                \<and> R ! j = f\<lparr>datafiles := Some (concat (map files_of
                      (filter (\<lambda>t. ident t = ident f) (tr # rest))))\<rparr>)"
    proof (intro allI impI)
      fix j assume j: "length merged \<le> j \<and> j < length R"
      then have "length (merged[i := m']) \<le> j \<and> j < length R"
        by simp
      then obtain f where notin: "ident (R ! j) \<notin> set (map ident (merged[i := m']))"
        and fnd: "find (\<lambda>t. ident t = ident (R ! j)) rest = Some f"
        and Rj: "R ! j = f\<lparr>datafiles := Some (concat (map files_of
                    (filter (\<lambda>t. ident t = ident f) rest)))\<rparr>"
        using Rc by blast
      have notin': "ident (R ! j) \<notin> set (map ident merged)"
        using notin unfolding keys .
      then have ne: "ident tr \<noteq> ident (R ! j)"
        using True by metis
      have "ident f = ident (R ! j)"
        using fnd by (auto simp: find_Some_iff)
      then have ne2: "ident tr \<noteq> ident f"
        using ne by simp
      show "ident (R ! j) \<notin> set (map ident merged)
          \<and> (\<exists>f. find (\<lambda>t. ident t = ident (R ! j)) (tr # rest) = Some f
                \<and> R ! j = f\<lparr>datafiles := Some (concat (map files_of
                      (filter (\<lambda>t. ident t = ident f) (tr # rest))))\<rparr>)"
        using notin' fnd Rj ne ne2 by simp
    qed
    show ?thesis
      using step R a b c by simp
  qed
qed


lemma checkUniqueness_pair:
  assumes "ident t1 = ident t2" and "datafiles t1 = Some a" and "datafiles t2 = Some b"
  shows "checkUniqueness [t1, t2] = Inr [t1\<lparr>datafiles := Some (a @ b)\<rparr>]"
  using assms
  by (simp add: checkUniqueness_def trans_eq_ident addDatafile_Files)

text \<open>
  C4, as stated, at two transitions with the same canonical descriptor, data files
  \<open>a.dat\<close> and \<open>b.dat\<close>, and \<open>n_quad\<close> 100 against 50: \<open>__eq__\<close> tells them
  apart, so checkUniqueness keeps both, each with its own file.
\<close>

theorem C4_distinct_n_quad_counterexample:
  "canonical_descriptor (co_2_1\<lparr>datafiles := Some [''a.dat'']\<rparr>)
     = canonical_descriptor (co_2_1\<lparr>n_quad := 50, datafiles := Some [''b.dat'']\<rparr>)
   \<and> checkUniqueness [co_2_1\<lparr>datafiles := Some [''a.dat'']\<rparr>,
                       co_2_1\<lparr>n_quad := 50, datafiles := Some [''b.dat'']\<rparr>]
       = Inr [co_2_1\<lparr>datafiles := Some [''a.dat'']\<rparr>,
              co_2_1\<lparr>n_quad := 50, datafiles := Some [''b.dat'']\<rparr>]"
  by (simp add: canonical_descriptor_def checkUniqueness_def trans_eq_def makeDict_def co_2_1_def)

text \<open>
  C4, amended: identity is the one \<open>__eq__\<close> compares (\<open>makeDict\<close>: the printed
  descriptor, \<open>n_quad\<close> and \<open>use_maser_in_sphinx\<close>).  For every list of transitions that
  all carry a list of data files, checkUniqueness returns one representative per distinct
  identity, in the order in which the identities are first seen; each representative is the
  first-seen transition of its identity, with its list of data files replaced by the lists of
  all transitions of that identity, appended in input order; so no data file of any input
  transition is dropped.  Two equal transitions with data files \<open>a.dat\<close> and \<open>b.dat\<close>
  merge into the first of them with data files \<open>a.dat, b.dat\<close>.
\<close>

theorem C4_checkUniqueness:
  "((\<forall>t \<in> set trans_list. datafiles t \<noteq> None) \<longrightarrow>
      (\<exists>merged. checkUniqueness trans_list = Inr merged
         \<and> map ident merged = first_seen (map ident trans_list)
         \<and> distinct (map ident merged)
         \<and> set (map ident merged) = set (map ident trans_list)
         \<and> (\<forall>m \<in> set merged. \<exists>f. find (\<lambda>t. trans_eq t m) trans_list = Some f
               \<and> m = f\<lparr>datafiles := Some (concat (map files_of
                         (filter (\<lambda>t. trans_eq t f) trans_list)))\<rparr>)
         \<and> (\<forall>t \<in> set trans_list. \<exists>m \<in> set merged.
               trans_eq m t \<and> set (files_of t) \<subseteq> set (files_of m))))
   \<and> (trans_eq t1 t2 \<and> datafiles t1 = Some [''a.dat''] \<and> datafiles t2 = Some [''b.dat'']
        \<longrightarrow> checkUniqueness [t1, t2] = Inr [t1\<lparr>datafiles := Some [''a.dat'', ''b.dat'']\<rparr>])"
proof (intro conjI impI)
  assume files: "\<forall>t \<in> set trans_list. datafiles t \<noteq> None"
  obtain R where R: "checkUniqueness_loop [] trans_list = Inr R"
    and Ra: "map ident R = first_seen (map ident trans_list)"
    and Rc: "\<forall>j. j < length R \<longrightarrow>
          (\<exists>f. find (\<lambda>t. ident t = ident (R ! j)) trans_list = Some f
                \<and> R ! j = f\<lparr>datafiles := Some (concat (map files_of
                      (filter (\<lambda>t. ident t = ident f) trans_list)))\<rparr>)"
    using loop_invariant [of "[]" trans_list] files by auto
  have d: "distinct (map ident R)"
    using Ra by (simp add: distinct_first_seen)
  have s: "set (map ident R) = set (map ident trans_list)"
    using Ra by (simp add: set_first_seen)
  have reps: "\<forall>m \<in> set R. \<exists>f. find (\<lambda>t. trans_eq t m) trans_list = Some f
               \<and> m = f\<lparr>datafiles := Some (concat (map files_of
                         (filter (\<lambda>t. trans_eq t f) trans_list)))\<rparr>"
  proof
    fix m assume "m \<in> set R"
    then obtain j where "j < length R" and "R ! j = m"
      by (auto simp: in_set_conv_nth)
    then show "\<exists>f. find (\<lambda>t. trans_eq t m) trans_list = Some f
               \<and> m = f\<lparr>datafiles := Some (concat (map files_of
                         (filter (\<lambda>t. trans_eq t f) trans_list)))\<rparr>"
      using Rc by (auto simp: trans_eq_ident)
  qed
  have kept: "\<forall>t \<in> set trans_list. \<exists>m \<in> set R.
               trans_eq m t \<and> set (files_of t) \<subseteq> set (files_of m)"
  proof
    fix t assume t: "t \<in> set trans_list"
    then have "ident t \<in> set (map ident R)"
      using s by simp
    then obtain m where m: "m \<in> set R" and km: "ident m = ident t"
      by auto
    obtain f where fnd: "find (\<lambda>t. trans_eq t m) trans_list = Some f"
      and mf: "m = f\<lparr>datafiles := Some (concat (map files_of
                         (filter (\<lambda>t. trans_eq t f) trans_list)))\<rparr>"
      using reps m by blast
    have "trans_eq f m"
      using fnd by (auto simp: find_Some_iff)
    then have "trans_eq t f"
      using km by (simp add: trans_eq_ident)
    then have "t \<in> set (filter (\<lambda>t. trans_eq t f) trans_list)"
      using t by simp
    then have "set (files_of t)
        \<subseteq> set (concat (map files_of (filter (\<lambda>t. trans_eq t f) trans_list)))"
      by auto
    moreover have "files_of m
        = concat (map files_of (filter (\<lambda>t. trans_eq t f) trans_list))"
      by (subst mf) (simp add: files_of_def)
    ultimately have "set (files_of t) \<subseteq> set (files_of m)"
      by simp
    then show "\<exists>m \<in> set R. trans_eq m t \<and> set (files_of t) \<subseteq> set (files_of m)"
      using m km by (auto simp: trans_eq_ident)
  qed
  show "\<exists>merged. checkUniqueness trans_list = Inr merged
         \<and> map ident merged = first_seen (map ident trans_list)
         \<and> distinct (map ident merged)
         \<and> set (map ident merged) = set (map ident trans_list)
         \<and> (\<forall>m \<in> set merged. \<exists>f. find (\<lambda>t. trans_eq t m) trans_list = Some f
               \<and> m = f\<lparr>datafiles := Some (concat (map files_of
                         (filter (\<lambda>t. trans_eq t f) trans_list)))\<rparr>)
         \<and> (\<forall>t \<in> set trans_list. \<exists>m \<in> set merged.
               trans_eq m t \<and> set (files_of t) \<subseteq> set (files_of m))"
    using R Ra d s reps kept unfolding checkUniqueness_def by blast
next
  assume "trans_eq t1 t2 \<and> datafiles t1 = Some [''a.dat''] \<and> datafiles t2 = Some [''b.dat'']"
  then show "checkUniqueness [t1, t2] = Inr [t1\<lparr>datafiles := Some [''a.dat'', ''b.dat'']\<rparr>]"
    using checkUniqueness_pair [of t1 t2 "[''a.dat'']" "[''b.dat'']"]
    by (simp add: trans_eq_ident)
qed

lemma ident_co_2_1:
  "ident co_2_1 = [(''TRANSITION'', VStr ''12C16O 0 2 0 0 0 1 0 0 APEX 0.00''),
     (''N_QUAD'', VInt 100), (''USE_MASER_IN_SPHINX'', VInt 0)]"
  by (simp add: makeDict_def show_defs py_replace.simps)

lemma ident_co_3_2:
  "ident (co_2_1\<lparr>jup := 3, jlow := 2\<rparr>)
     = [(''TRANSITION'', VStr ''12C16O 0 3 0 0 0 2 0 0 APEX 0.00''),
        (''N_QUAD'', VInt 100), (''USE_MASER_IN_SPHINX'', VInt 0)]"
  by (simp add: makeDict_def show_defs py_replace.simps)

lemma ident_model_id [simp]: "ident (t\<lparr>model_id := d\<rparr>) = ident t"
  by (simp add: makeDict_def str_trans_def)

theorem C4_checkUniqueness_witness:
  "list_all (\<lambda>t. datafiles t \<noteq> None)
     [co_2_1\<lparr>datafiles := Some [''a.dat'']\<rparr>,
      co_2_1\<lparr>jup := 3, jlow := 2, datafiles := Some [''c.dat'']\<rparr>,
      co_2_1\<lparr>model_id := Some ''model_1'', datafiles := Some [''b.dat'']\<rparr>]
   \<and> checkUniqueness [co_2_1\<lparr>datafiles := Some [''a.dat'']\<rparr>,
      co_2_1\<lparr>jup := 3, jlow := 2, datafiles := Some [''c.dat'']\<rparr>,
      co_2_1\<lparr>model_id := Some ''model_1'', datafiles := Some [''b.dat'']\<rparr>]
       = Inr [co_2_1\<lparr>datafiles := Some [''a.dat'', ''b.dat'']\<rparr>, co_2_1\<lparr>jup := 3, jlow := 2, datafiles := Some [''c.dat'']\<rparr>]
   \<and> trans_eq (co_2_1\<lparr>datafiles := Some [''a.dat'']\<rparr>) (co_2_1\<lparr>model_id := Some ''model_1'', datafiles := Some [''b.dat'']\<rparr>)
   \<and> datafiles (co_2_1\<lparr>datafiles := Some [''a.dat'']\<rparr>) = Some [''a.dat'']
   \<and> datafiles (co_2_1\<lparr>model_id := Some ''model_1'', datafiles := Some [''b.dat'']\<rparr>) = Some [''b.dat'']
   \<and> checkUniqueness [co_2_1\<lparr>datafiles := Some [''a.dat'']\<rparr>, co_2_1\<lparr>model_id := Some ''model_1'', datafiles := Some [''b.dat'']\<rparr>] = Inr [co_2_1\<lparr>datafiles := Some [''a.dat'', ''b.dat'']\<rparr>]"
proof -
  have h: "\<forall>t \<in> set [co_2_1\<lparr>datafiles := Some [''a.dat'']\<rparr>,
      co_2_1\<lparr>jup := 3, jlow := 2, datafiles := Some [''c.dat'']\<rparr>,
      co_2_1\<lparr>model_id := Some ''model_1'', datafiles := Some [''b.dat'']\<rparr>]. datafiles t \<noteq> None"
    by simp
  have v: "checkUniqueness [co_2_1\<lparr>datafiles := Some [''a.dat'']\<rparr>,
      co_2_1\<lparr>jup := 3, jlow := 2, datafiles := Some [''c.dat'']\<rparr>,
      co_2_1\<lparr>model_id := Some ''model_1'', datafiles := Some [''b.dat'']\<rparr>]
       = Inr [co_2_1\<lparr>datafiles := Some [''a.dat'', ''b.dat'']\<rparr>, co_2_1\<lparr>jup := 3, jlow := 2, datafiles := Some [''c.dat'']\<rparr>]"
    by (simp add: checkUniqueness_def trans_eq_ident ident_co_2_1 ident_co_3_2
          addDatafile_def datafiles_arg_def)
  have e: "trans_eq (co_2_1\<lparr>datafiles := Some [''a.dat'']\<rparr>) (co_2_1\<lparr>model_id := Some ''model_1'', datafiles := Some [''b.dat'']\<rparr>)"
    by (simp add: trans_eq_ident)
  have p: "checkUniqueness [co_2_1\<lparr>datafiles := Some [''a.dat'']\<rparr>, co_2_1\<lparr>model_id := Some ''model_1'', datafiles := Some [''b.dat'']\<rparr>] = Inr [co_2_1\<lparr>datafiles := Some [''a.dat'', ''b.dat'']\<rparr>]"
    using e C4_checkUniqueness [where ?t1.0 = "co_2_1\<lparr>datafiles := Some [''a.dat'']\<rparr>" and ?t2.0 = "co_2_1\<lparr>model_id := Some ''model_1'', datafiles := Some [''b.dat'']\<rparr>" and trans_list = "[co_2_1\<lparr>datafiles := Some [''a.dat'']\<rparr>,
      co_2_1\<lparr>jup := 3, jlow := 2, datafiles := Some [''c.dat'']\<rparr>,
      co_2_1\<lparr>model_id := Some ''model_1'', datafiles := Some [''b.dat'']\<rparr>]"]
    by simp
  have h': "list_all (\<lambda>t. datafiles t \<noteq> None)
     [co_2_1\<lparr>datafiles := Some [''a.dat'']\<rparr>,
      co_2_1\<lparr>jup := 3, jlow := 2, datafiles := Some [''c.dat'']\<rparr>,
      co_2_1\<lparr>model_id := Some ''model_1'', datafiles := Some [''b.dat'']\<rparr>]"
    by simp
  show ?thesis
    using h' v e p by (intro conjI) simp_all
qed

section \<open>Properties of the velocity match\<close>

subsection \<open>C10: the best velocity is computed once\<close>

text \<open>
  C10.  When \<open>best_vlsr\<close> holds a value, getBestVlsr returns it and leaves the transition
  as it is, whatever the argument \<open>vlsr\<close> and whatever the readers, the interpolator and the
  chi-squared function would do: nothing is read and nothing is searched.  In particular this
  holds for the transition a previous call has left behind with \<open>best_vlsr\<close> set.
\<close>

theorem C10_best_vlsr_cached:
  "(best_vlsr t = Some b \<longrightarrow> getBestVlsr C vlsr t = (Inr (Some b), t))
   \<and> (getBestVlsr C0 vlsr0 t0 = (r, t) \<and> best_vlsr t = Some b
        \<longrightarrow> getBestVlsr C vlsr t = (Inr (Some b), t))"
  by (simp add: getBestVlsr_def)

subsection \<open>C7: the clip at minus the noise\<close>






subsection \<open>C6: the grid search\<close>

lemma first_index_least:
  "j < first_index P xs \<Longrightarrow> j < length xs \<Longrightarrow> \<not> P (xs ! j)"
proof (induction xs arbitrary: j)
  case Nil
  then show ?case by simp
next
  case (Cons x xs)
  then show ?case by (cases j) (auto split: if_splits)
qed

lemma argmin_props:
  assumes "xs \<noteq> []"
  shows "argmin xs < length xs"
    and "xs ! argmin xs = min_list xs"
    and "\<forall>j < length xs. xs ! argmin xs \<le> xs ! j"
    and "\<forall>j < argmin xs. xs ! argmin xs < xs ! j"
proof -
  have m: "min_list xs = Min (set xs)"
    using assms by (rule min_list_Min)
  have "Min (set xs) \<in> set xs"
    using assms by (simp add: Min_in)
  then have ex: "\<exists>x \<in> set xs. x = min_list xs"
    using m by simp
  show a: "argmin xs < length xs" and b: "xs ! argmin xs = min_list xs"
    using first_index_found [OF ex] by (simp_all add: argmin_def)
  show c: "\<forall>j < length xs. xs ! argmin xs \<le> xs ! j"
    using b m by simp
  show "\<forall>j < argmin xs. xs ! argmin xs < xs ! j"
  proof (intro allI impI)
    fix j assume j: "j < argmin xs"
    then have jl: "j < length xs"
      using a by simp
    have "xs ! j \<noteq> min_list xs"
      using first_index_least [of j "\<lambda>x. x = min_list xs" xs] j jl by (simp add: argmin_def)
    moreover have "min_list xs \<le> xs ! j"
      using c b jl by simp
    ultimately show "xs ! argmin xs < xs ! j"
      using b by simp
  qed
qed

lemma length_linspace: "length (linspace a b n) = n"
  by (simp add: linspace_def)

lemma nth_linspace:
  assumes "i < n" and "1 < n"
  shows "linspace a b n ! i = a + real i * ((b - a) / real (n - 1))"
proof (cases "i = n - 1")
  case True
  then show ?thesis
    using assms by (simp add: linspace_def nth_append)
next
  case False
  then have "i < n - 1"
    using assms by simp
  then show ?thesis
    using assms by (simp add: linspace_def nth_append)
qed

lemma length_range_in_vlsr: "length (range_in_vlsr v ve) = 31"
  by (simp add: range_in_vlsr_def length_linspace)

lemma nth_range_in_vlsr:
  assumes "i < 31"
  shows "range_in_vlsr v ve ! i = v - 0.5 * ve + real i * (ve / 30)"
  using assms nth_linspace [of i 31 "v - 0.5 * ve" "v + 0.5 * ve"]
  by (simp add: range_in_vlsr_def)

lemma map_err_length:
  "map_err f xs = Inr ys \<Longrightarrow> length ys = length xs"
  by (induction xs arbitrary: ys) (auto split: sum.splits)

lemma getBestVlsr_grid:
  assumes "best_vlsr t = None"
    and "readData C vlsr t = (Inr (), t1)"
    and "lpdata t1 = Some (lp # lps)"
    and "readSphinx C t1 = (Inr (), t2)"
    and "sphinx t2 = Some sp"
    and "vexp t2 = Some ve"
    and "dtmb_interp C lp sp (range_in_vlsr (getVlsr lp) ve) = Inr interp"
  shows "getBestVlsr C vlsr t =
     (Inr (Some (range_in_vlsr (getVlsr lp) ve
                   ! argmin (chisquared C (getNoise lp ve) (getLPTmb sp) interp))),
      t2\<lparr>chi2_best_vlsr := Some (min_list (chisquared C (getNoise lp ve) (getLPTmb sp) interp)),
         best_vlsr := Some (range_in_vlsr (getVlsr lp) ve
                   ! argmin (chisquared C (getNoise lp ve) (getLPTmb sp) interp)),
         dtmb_best_vlsr := Some (interp
                   ! argmin (chisquared C (getNoise lp ve) (getLPTmb sp) interp))\<rparr>)"
  using assms by (simp add: getBestVlsr_def grid_search_def Let_def)

lemma same_profile_chi:
  assumes "\<forall>d n. calcChiSquared C d d n = 0"
  shows "chisquared_at C noise mtmb mtmb = 0"
  using assms by (simp add: chisquared_at_def Let_def)

lemma observed_grid:
  "range_in_vlsr 10 30 = map real_of_int [-5..25]"
  by code_simp

lemma observed_interp:
  "dtmb_interp no_files shifted_triangle triangle (map real_of_int [-5..25])
   = Inr (replicate 16 [0, 0, 0] @ [[0, 0, 1], [0, 1, 0], [1, 0, 0]] @ replicate 12 [0, 0, 0])"
  by code_simp

lemma observed_chis:
  "chisquared no_files 1 [0, 1, 0]
     (replicate 16 [0, 0, 0] @ [[0, 0, 1], [0, 1, 0], [1, 0, 0]] @ replicate 12 [0, 0, 0])
   = replicate 16 1 @ [2, 0, 2] @ replicate 12 1"
  by code_simp

lemma observed_argmin:
  "argmin (replicate 16 1 @ [2, 0, 2] @ replicate 12 1) = 17"
  "min_list (replicate 16 1 @ [2, 0, 2] @ replicate 12 (1::real)) = 0"
  "map real_of_int [-5..25] ! 17 = 12"
  "(replicate 16 [0, 0, 0] @ [[0, 0, 1], [0, 1, 0], [1, 0, 0]] @ replicate 12 [0, 0, 0]) ! 17
     = [0, 1, 0 :: real]"
  "(0::real) \<notin> set (take 17 (replicate 16 1 @ [2, 0, 2] @ replicate 12 1))"
  by code_simp+

lemma observed_result:
  "getBestVlsr no_files vlsr co_2_1_observed =
     (Inr (Some 12),
      co_2_1_observed\<lparr>chi2_best_vlsr := Some 0, best_vlsr := Some 12,
        dtmb_best_vlsr := Some [0, 1, 0]\<rparr>)"
proof -
  have h1: "best_vlsr co_2_1_observed = None"
    by (simp add: co_2_1_observed_def co_2_1_def)
  have h2: "readData no_files vlsr co_2_1_observed = (Inr (), co_2_1_observed)"
    by (simp add: readData_def co_2_1_observed_def)
  have h3: "lpdata co_2_1_observed = Some (shifted_triangle # [])"
    by (simp add: co_2_1_observed_def)
  have h4: "readSphinx no_files co_2_1_observed = (Inr (), co_2_1_observed)"
    by (simp add: readSphinx_def co_2_1_observed_def)
  have h5: "sphinx co_2_1_observed = Some triangle"
    by (simp add: co_2_1_observed_def)
  have h6: "vexp co_2_1_observed = Some 30"
    by (simp add: co_2_1_observed_def)
  have v: "getVlsr shifted_triangle = 10" and n: "getNoise shifted_triangle 30 = 1"
    by (simp_all add: shifted_triangle_def)
  have m: "getLPTmb triangle = [0, 1, 0]"
    by (simp add: triangle_def)
  have h7: "dtmb_interp no_files shifted_triangle triangle
              (range_in_vlsr (getVlsr shifted_triangle) 30)
            = Inr (replicate 16 [0, 0, 0] @ [[0, 0, 1], [0, 1, 0], [1, 0, 0]]
                     @ replicate 12 [0, 0, 0])"
    by (simp only: v observed_grid observed_interp)
  show ?thesis
    using getBestVlsr_grid [OF h1 h2 h3 h4 h5 h6 h7]
    by (simp only: v n m observed_grid observed_chis observed_argmin)
qed

lemma chi_spec_same: "calcChiSquared_spec d d n = 0"
  by (induction d) (simp_all add: calcChiSquared_spec_def)

lemma chi_spec_nonneg: "0 \<le> calcChiSquared_spec d m n"
  unfolding calcChiSquared_spec_def
  by (rule sum_list_nonneg) auto

lemma observed_hyps:
  "best_vlsr co_2_1_observed = None"
  "readData no_files vlsr co_2_1_observed = (Inr (), co_2_1_observed)"
  "lpdata co_2_1_observed = Some (shifted_triangle # [])"
  "readSphinx no_files co_2_1_observed = (Inr (), co_2_1_observed)"
  "sphinx co_2_1_observed = Some triangle"
  "vexp co_2_1_observed = Some 30"
  by (simp_all add: co_2_1_observed_def co_2_1_def readData_def readSphinx_def)

lemma observed_values:
  "getVlsr shifted_triangle = 10" "getNoise shifted_triangle 30 = 1"
  "getLPTmb triangle = [0, 1, 0]" "calcChiSquared no_files = calcChiSquared_spec"
  by (simp_all add: shifted_triangle_def triangle_def no_files_def)

lemma observed_interp_at:
  "dtmb_interp no_files shifted_triangle triangle (range_in_vlsr (getVlsr shifted_triangle) 30)
   = Inr (replicate 16 [0, 0, 0] @ [[0, 0, 1], [0, 1, 0], [1, 0, 0]] @ replicate 12 [0, 0, 0])"
  by (simp only: observed_values observed_grid observed_interp)

text \<open>
  C6, as stated, at a transition whose observed data report a source velocity of 10 while the
  caller passes 100, with \<open>vexp = 30\<close>: the grid is laid around 10, the best candidate is 12,
  and 12 is not in the interval from \<open>100 - 0.5 * 30\<close> to \<open>100 + 0.5 * 30\<close>.
\<close>

theorem C6_grid_centre_counterexample:
  "fst (getBestVlsr no_files (Some 100) co_2_1_observed) = Inr (Some 12)
   \<and> \<not> (100 - 0.5 * 30 \<le> (12::real) \<and> (12::real) \<le> 100 + 0.5 * 30)"
  using observed_result [of "Some 100"] by simp

text \<open>
  C6, amended.  When data, model and \<open>vexp\<close> are there, getBestVlsr lays a uniform grid of
  31 candidates over the closed interval of half-width \<open>0.5 * vexp\<close> around the velocity
  reported by the first observed profile (\<open>lpdata[0].getVlsr()\<close>), not around its argument.
  If the interpolation succeeds at every candidate, it returns the candidate of least
  chi-squared, the first one in ascending order among equals, and records that candidate, its
  chi-squared and the interpolated observed profile.  If at a candidate the interpolated
  observed profile equals the modelled one, chi-squared of equal profiles is 0 and chi-squared
  is never negative, and no earlier candidate reaches 0, then that candidate is returned and
  the recorded chi-squared is 0.
\<close>

theorem C6_grid_search:
  assumes "best_vlsr t = None"
    and "readData C vlsr t = (Inr (), t1)"
    and "lpdata t1 = Some (lp # lps)"
    and "readSphinx C t1 = (Inr (), t2)"
    and "sphinx t2 = Some sp"
    and "vexp t2 = Some ve"
    and "dtmb_interp C lp sp (range_in_vlsr (getVlsr lp) ve) = Inr interp"
  shows "length (range_in_vlsr (getVlsr lp) ve) = 31
    \<and> (\<exists>i<31.
          getBestVlsr C vlsr t =
            (Inr (Some (range_in_vlsr (getVlsr lp) ve ! i)),
             t2\<lparr>chi2_best_vlsr :=
                   Some (chisquared C (getNoise lp ve) (getLPTmb sp) interp ! i),
                best_vlsr := Some (range_in_vlsr (getVlsr lp) ve ! i),
                dtmb_best_vlsr := Some (interp ! i)\<rparr>)
        \<and> range_in_vlsr (getVlsr lp) ve ! i = getVlsr lp - 0.5 * ve + real i * (ve / 30)
        \<and> (\<forall>j<31. chisquared C (getNoise lp ve) (getLPTmb sp) interp ! i
                      \<le> chisquared C (getNoise lp ve) (getLPTmb sp) interp ! j)
        \<and> (\<forall>j<i. chisquared C (getNoise lp ve) (getLPTmb sp) interp ! i
                      < chisquared C (getNoise lp ve) (getLPTmb sp) interp ! j)
        \<and> (\<forall>k<31. interp ! k = getLPTmb sp
                \<and> (\<forall>d n. calcChiSquared C d d n = 0)
                \<and> (\<forall>d m n. 0 \<le> calcChiSquared C d m n)
                \<and> 0 \<notin> set (take k (chisquared C (getNoise lp ve) (getLPTmb sp) interp))
              \<longrightarrow> i = k
                  \<and> chisquared C (getNoise lp ve) (getLPTmb sp) interp ! i = 0))"
proof -
  define grid where "grid = range_in_vlsr (getVlsr lp) ve"
  define chis where "chis = chisquared C (getNoise lp ve) (getLPTmb sp) interp"
  define i where "i = argmin chis"
  have lg: "length grid = 31"
    by (simp add: grid_def length_range_in_vlsr)
  have li: "length interp = 31"
    using assms(7) map_err_length [of _ grid interp] lg
    by (simp add: dtmb_interp_def grid_def)
  have lc: "length chis = 31"
    using li by (simp add: chis_def chisquared_def)
  then have ne: "chis \<noteq> []"
    by auto
  have i31: "i < 31"
    using argmin_props(1) [OF ne] lc by (simp add: i_def)
  have mn: "chis ! i = min_list chis"
    using argmin_props(2) [OF ne] by (simp add: i_def)
  have le: "\<forall>j<31. chis ! i \<le> chis ! j"
    using argmin_props(3) [OF ne] lc by (simp add: i_def)
  have lt: "\<forall>j<i. chis ! i < chis ! j"
    using argmin_props(4) [OF ne] by (simp add: i_def)
  have res: "getBestVlsr C vlsr t =
      (Inr (Some (grid ! i)),
       t2\<lparr>chi2_best_vlsr := Some (chis ! i), best_vlsr := Some (grid ! i),
          dtmb_best_vlsr := Some (interp ! i)\<rparr>)"
    using getBestVlsr_grid [OF assms] mn
    by (simp add: grid_def chis_def i_def)
  have nth: "grid ! i = getVlsr lp - 0.5 * ve + real i * (ve / 30)"
    using i31 by (simp add: grid_def nth_range_in_vlsr)
  have copy: "\<forall>k<31. interp ! k = getLPTmb sp
                \<and> (\<forall>d n. calcChiSquared C d d n = 0)
                \<and> (\<forall>d m n. 0 \<le> calcChiSquared C d m n)
                \<and> 0 \<notin> set (take k chis)
              \<longrightarrow> i = k \<and> chis ! i = 0"
  proof (intro allI impI)
    fix k :: nat assume k: "k < 31"
    assume h: "interp ! k = getLPTmb sp
                \<and> (\<forall>d n. calcChiSquared C d d n = 0)
                \<and> (\<forall>d m n. 0 \<le> calcChiSquared C d m n)
                \<and> 0 \<notin> set (take k chis)"
    have "chis ! k = chisquared_at C (getNoise lp ve) (getLPTmb sp) (interp ! k)"
      using k li by (simp add: chis_def chisquared_def)
    then have ck: "chis ! k = 0"
      using h same_profile_chi [of C] by simp
    have "chis ! i = chisquared_at C (getNoise lp ve) (getLPTmb sp) (interp ! i)"
      using i31 li by (simp add: chis_def chisquared_def)
    then have "0 \<le> chis ! i"
      using h by (simp add: chisquared_at_def Let_def)
    moreover have "chis ! i \<le> 0"
      using le k ck by auto
    ultimately have c0: "chis ! i = 0"
      by simp
    have "\<not> k < i"
      using lt ck c0 by auto
    moreover have "\<not> i < k"
    proof
      assume "i < k"
      then have "chis ! i \<in> set (take k chis)"
        using k lc by (auto simp: in_set_conv_nth intro!: exI [of _ i])
      then show False
        using h c0 by simp
    qed
    ultimately show "i = k \<and> chis ! i = 0"
      using c0 by simp
  qed
  show ?thesis
    using lg i31 res nth le lt copy unfolding grid_def chis_def by blast
qed

theorem C6_grid_search_witness:
  "best_vlsr co_2_1_observed = None
   \<and> readData no_files (Some 100) co_2_1_observed = (Inr (), co_2_1_observed)
   \<and> lpdata co_2_1_observed = Some (shifted_triangle # [])
   \<and> readSphinx no_files co_2_1_observed = (Inr (), co_2_1_observed)
   \<and> sphinx co_2_1_observed = Some triangle
   \<and> vexp co_2_1_observed = Some 30
   \<and> dtmb_interp no_files shifted_triangle triangle
         (range_in_vlsr (getVlsr shifted_triangle) 30) = Inr (replicate 16 [0, 0, 0] @ [[0, 0, 1], [0, 1, 0], [1, 0, 0]] @ replicate 12 [0, 0, 0])
   \<and> (replicate 16 [0, 0, 0] @ [[0, 0, 1], [0, 1, 0], [1, 0, 0]] @ replicate 12 [0, 0, 0]) ! 17 = getLPTmb triangle
   \<and> (\<forall>d n. calcChiSquared no_files d d n = 0)
   \<and> (\<forall>d m n. 0 \<le> calcChiSquared no_files d m n)
   \<and> 0 \<notin> set (take 17 (chisquared no_files (getNoise shifted_triangle 30) (getLPTmb triangle)
                            (replicate 16 [0, 0, 0] @ [[0, 0, 1], [0, 1, 0], [1, 0, 0]] @ replicate 12 [0, 0, 0])))
   \<and> fst (getBestVlsr no_files (Some 100) co_2_1_observed)
       = Inr (Some (range_in_vlsr (getVlsr shifted_triangle) 30 ! 17))
   \<and> range_in_vlsr (getVlsr shifted_triangle) 30 ! 17 = getVlsr shifted_triangle + 2
   \<and> chi2_best_vlsr (snd (getBestVlsr no_files (Some 100) co_2_1_observed)) = Some 0"
proof -
  have c1: "(replicate 16 [0, 0, 0] @ [[0, 0, 1], [0, 1, 0], [1, 0, 0]] @ replicate 12 [0, 0, 0]) ! 17 = getLPTmb triangle"
    by (simp only: observed_values observed_argmin)
  have c2: "\<forall>d n. calcChiSquared no_files d d n = 0"
    by (simp add: observed_values chi_spec_same)
  have c3: "\<forall>d m n. 0 \<le> calcChiSquared no_files d m n"
    by (simp add: observed_values chi_spec_nonneg)
  have c4: "0 \<notin> set (take 17 (chisquared no_files (getNoise shifted_triangle 30)
               (getLPTmb triangle) (replicate 16 [0, 0, 0] @ [[0, 0, 1], [0, 1, 0], [1, 0, 0]] @ replicate 12 [0, 0, 0])))"
    by (simp only: observed_values(1-3) observed_chis observed_argmin) simp
  obtain i where i: "i < 31"
    and res: "getBestVlsr no_files (Some 100) co_2_1_observed =
            (Inr (Some (range_in_vlsr (getVlsr shifted_triangle) 30 ! i)),
             co_2_1_observed\<lparr>chi2_best_vlsr :=
                   Some (chisquared no_files (getNoise shifted_triangle 30) (getLPTmb triangle)
                           (replicate 16 [0, 0, 0] @ [[0, 0, 1], [0, 1, 0], [1, 0, 0]] @ replicate 12 [0, 0, 0]) ! i),
                best_vlsr := Some (range_in_vlsr (getVlsr shifted_triangle) 30 ! i),
                dtmb_best_vlsr := Some ((replicate 16 [0, 0, 0] @ [[0, 0, 1], [0, 1, 0], [1, 0, 0]] @ replicate 12 [0, 0, 0]) ! i)\<rparr>)"
    and nth: "range_in_vlsr (getVlsr shifted_triangle) 30 ! i
                = getVlsr shifted_triangle - 0.5 * 30 + real i * (30 / 30)"
    and copy: "\<forall>k<31. (replicate 16 [0, 0, 0] @ [[0, 0, 1], [0, 1, 0], [1, 0, 0]] @ replicate 12 [0, 0, 0]) ! k = getLPTmb triangle
                \<and> (\<forall>d n. calcChiSquared no_files d d n = 0)
                \<and> (\<forall>d m n. 0 \<le> calcChiSquared no_files d m n)
                \<and> 0 \<notin> set (take k (chisquared no_files (getNoise shifted_triangle 30)
                                       (getLPTmb triangle) (replicate 16 [0, 0, 0] @ [[0, 0, 1], [0, 1, 0], [1, 0, 0]] @ replicate 12 [0, 0, 0])))
              \<longrightarrow> i = k
                  \<and> chisquared no_files (getNoise shifted_triangle 30) (getLPTmb triangle)
                        (replicate 16 [0, 0, 0] @ [[0, 0, 1], [0, 1, 0], [1, 0, 0]] @ replicate 12 [0, 0, 0]) ! i = 0"
    using C6_grid_search [OF observed_hyps(1) observed_hyps(2) [of "Some 100"] observed_hyps(3)
        observed_hyps(4) observed_hyps(5) observed_hyps(6) observed_interp_at]
    by blast
  have both: "i = 17 \<and> chisquared no_files (getNoise shifted_triangle 30) (getLPTmb triangle)
                        (replicate 16 [0, 0, 0] @ [[0, 0, 1], [0, 1, 0], [1, 0, 0]] @ replicate 12 [0, 0, 0]) ! i = 0"
    by (rule copy [rule_format, of 17, OF _ conjI [OF c1 conjI [OF c2 conjI [OF c3 c4]]]]) simp
  have i17: "i = 17"
    using both by (rule conjunct1)
  have z: "chisquared no_files (getNoise shifted_triangle 30) (getLPTmb triangle)
                        (replicate 16 [0, 0, 0] @ [[0, 0, 1], [0, 1, 0], [1, 0, 0]] @ replicate 12 [0, 0, 0]) ! i = 0"
    using both by (rule conjunct2)
  have r1: "fst (getBestVlsr no_files (Some 100) co_2_1_observed)
       = Inr (Some (range_in_vlsr (getVlsr shifted_triangle) 30 ! 17))"
    using res i17 by simp
  have r2: "range_in_vlsr (getVlsr shifted_triangle) 30 ! 17 = getVlsr shifted_triangle + 2"
    using nth i17 by simp
  have r3: "chi2_best_vlsr (snd (getBestVlsr no_files (Some 100) co_2_1_observed)) = Some 0"
    using res z by simp
  show ?thesis
    using observed_hyps(1) observed_hyps(2) [of "Some 100"] observed_hyps(3) observed_hyps(4)
      observed_hyps(5) observed_hyps(6) observed_interp_at c1 c2 c3 c4 r1 r2 r3
    by (intro conjI)
qed

theorem C10_best_vlsr_cached_witness:
  "best_vlsr (co_2_1_observed\<lparr>chi2_best_vlsr := Some 0, best_vlsr := Some 12,
        dtmb_best_vlsr := Some [0, 1, 0]\<rparr>) = Some 12
   \<and> getBestVlsr no_files (Some 100) co_2_1_observed = (Inr (Some 12), co_2_1_observed\<lparr>chi2_best_vlsr := Some 0, best_vlsr := Some 12,
        dtmb_best_vlsr := Some [0, 1, 0]\<rparr>)
   \<and> getBestVlsr (no_files\<lparr>interp1d := (\<lambda>x y x_new. Inl ValueError)\<rparr>) (Some 55) (co_2_1_observed\<lparr>chi2_best_vlsr := Some 0, best_vlsr := Some 12,
        dtmb_best_vlsr := Some [0, 1, 0]\<rparr>)
       = (Inr (Some 12), co_2_1_observed\<lparr>chi2_best_vlsr := Some 0, best_vlsr := Some 12,
        dtmb_best_vlsr := Some [0, 1, 0]\<rparr>)"
proof -
  have h: "best_vlsr (co_2_1_observed\<lparr>chi2_best_vlsr := Some 0, best_vlsr := Some 12,
        dtmb_best_vlsr := Some [0, 1, 0]\<rparr>) = Some 12"
    by simp
  have first: "getBestVlsr no_files (Some 100) co_2_1_observed = (Inr (Some 12), co_2_1_observed\<lparr>chi2_best_vlsr := Some 0, best_vlsr := Some 12,
        dtmb_best_vlsr := Some [0, 1, 0]\<rparr>)"
    by (rule observed_result)
  have second: "getBestVlsr (no_files\<lparr>interp1d := (\<lambda>x y x_new. Inl ValueError)\<rparr>) (Some 55) (co_2_1_observed\<lparr>chi2_best_vlsr := Some 0, best_vlsr := Some 12,
        dtmb_best_vlsr := Some [0, 1, 0]\<rparr>)
       = (Inr (Some 12), co_2_1_observed\<lparr>chi2_best_vlsr := Some 0, best_vlsr := Some 12,
        dtmb_best_vlsr := Some [0, 1, 0]\<rparr>)"
    using C10_best_vlsr_cached [where t = "co_2_1_observed\<lparr>chi2_best_vlsr := Some 0, best_vlsr := Some 12,
        dtmb_best_vlsr := Some [0, 1, 0]\<rparr>" and b = 12
        and C = "no_files\<lparr>interp1d := (\<lambda>x y x_new. Inl ValueError)\<rparr>" and vlsr = "Some 55"
        and ?C0.0 = no_files and ?vlsr0.0 = "Some 100" and ?t0.0 = co_2_1_observed
        and r = "Inr (Some 12)"]
      h first
    by blast
  show ?thesis
    using h first second by (intro conjI)
qed

section \<open>Properties of the construction\<close>

subsection \<open>C9: an index pair that the radiative table does not resolve\<close>

lemma unresolved_never_constructs:
  assumes "resolve_indices t = Inr t1"
    and "getTransInfo (molecule t1) (low_i t1) (up_i t1) = None"
  shows "\<exists>e console1. Transition_init console None t = (Inl e, console1)"
  using assms
  by (cases console) (simp_all add: Transition_init_def setIndices_def raw_input_def Let_def)

text \<open>
  C9, at the CO line of a molecule whose \<open>getTransInfo\<close> returns \<open>False\<close> for the resolved
  pair of indices.  The check does not raise: the constructor prompts and waits for a line
  from the console; given one, it goes on to the next statement, which fails with TypeError on
  subscripting \<open>False\<close>; given none, \<open>raw_input\<close> fails with EOFError.
\<close>

theorem C9_prompt_then_TypeError:
  "Transition_init [''y''] None (co_2_1\<lparr>molecule := co\<lparr>getTransInfo := (\<lambda>low up. None)\<rparr>\<rparr>) = (Inl TypeError, [])
   \<and> Transition_init [] None (co_2_1\<lparr>molecule := co\<lparr>getTransInfo := (\<lambda>low up. None)\<rparr>\<rparr>) = (Inl EOFError, [])"
  by (simp add: Transition_init_def setIndices_def resolve_indices_def raw_input_def
        co_2_1_def co_def Let_def)

section \<open>Behaviour outside the amended statements\<close>

text \<open>
  A later duplicate without data files, merged into a representative that has some:
  \<open>addDatafile\<close> reaches \<open>self.datafiles.extend(None)\<close> and checkUniqueness fails with
  TypeError.
\<close>

lemma checkUniqueness_duplicate_without_files:
  "checkUniqueness [co_2_1\<lparr>datafiles := Some [''a.dat'']\<rparr>, co_2_1] = Inl TypeError"
proof -
  have "datafiles co_2_1 = None"
    by (simp add: co_2_1_def)
  then show ?thesis
    by (simp add: checkUniqueness_def trans_eq_ident addDatafile_def datafiles_arg_def)
qed

end
